theory Spec2Isabelle
  imports Complex_Main "HOL-Library.AList" "HOL-Library.Multiset" "HOL-Library.Code_Target_Numeral"
begin

section \<open>JavaScript values used by the data table\<close>

text \<open>
  The table rows come from a JSON response. A field of a row holds a primitive value;
  reading a field that the row does not have gives \<open>undefined\<close>. A number is a double:
  NaN, an infinity, or a finite value, which is kept as the rational number that the
  double stands for (the sign of zero is not kept). A row is the list of its properties
  in property order, with distinct keys.
\<close>

datatype 'a ext = Fin 'a | PosInf | NegInf | NaN

datatype jsval = JUndefined | JNull | JBool bool | JNum "rat ext" | JStr string

type_synonym row = "(string \<times> jsval) list"

text \<open>\<open>item[key]\<close>: the value of the property, \<open>undefined\<close> when it is missing.\<close>

definition get_prop :: "row \<Rightarrow> string \<Rightarrow> jsval" where
  "get_prop item key = (case map_of item key of None \<Rightarrow> JUndefined | Some v \<Rightarrow> v)"

text \<open>\<open>Object.values(item)\<close>.\<close>

definition Object_values :: "row \<Rightarrow> jsval list" where
  "Object_values item = map snd item"

text \<open>Truthiness, as \<open>if (value)\<close> tests it.\<close>

fun truthy :: "jsval \<Rightarrow> bool" where
  "truthy JUndefined = False"
| "truthy JNull = False"
| "truthy (JBool b) = b"
| "truthy (JNum n) = (n \<noteq> Fin 0 \<and> n \<noteq> NaN)"
| "truthy (JStr s) = (s \<noteq> [])"

subsection \<open>Strings\<close>

text \<open>
  Strings are lists of 8-bit characters; the model is exact on ASCII text.
  \<open>toLowerCase\<close> maps \<open>A..Z\<close> to \<open>a..z\<close> and leaves every other character alone.
\<close>

definition lower_char :: "char \<Rightarrow> char" where
  "lower_char c =
     (let n = (of_char c :: nat) in if 65 \<le> n \<and> n \<le> 90 then char_of (n + 32) else c)"

definition toLowerCase :: "string \<Rightarrow> string" where
  "toLowerCase s = map lower_char s"

fun starts_with :: "string \<Rightarrow> string \<Rightarrow> bool" where
  "starts_with s [] = True"
| "starts_with [] (c # cs) = False"
| "starts_with (x # xs) (c # cs) = (x = c \<and> starts_with xs cs)"

text \<open>\<open>s.includes(t)\<close>: \<open>t\<close> occurs in \<open>s\<close> as a contiguous run of characters.\<close>

fun includes_str :: "string \<Rightarrow> string \<Rightarrow> bool" where
  "includes_str [] t = (t = [])"
| "includes_str (x # xs) t = (starts_with (x # xs) t \<or> includes_str xs t)"

text \<open>
  White space is tab, line feed, vertical tab, form feed, carriage return and space.
\<close>

definition is_ws :: "char \<Rightarrow> bool" where
  "is_ws c = ((of_char c :: nat) \<in> {9, 10, 11, 12, 13, 32})"

definition is_digit :: "char \<Rightarrow> bool" where
  "is_digit c = (48 \<le> (of_char c :: nat) \<and> (of_char c :: nat) \<le> 57)"

definition trim :: "string \<Rightarrow> string" where
  "trim s = rev (dropWhile is_ws (rev (dropWhile is_ws s)))"

text \<open>The decimal digits of a natural number, most significant first, and back.\<close>

fun digits :: "nat \<Rightarrow> string" where
  "digits n =
     (if n < 10 then [char_of (48 + n)] else digits (n div 10) @ [char_of (48 + n mod 10)])"

declare digits.simps [simp del]

definition digits_value :: "string \<Rightarrow> int" where
  "digits_value s = foldl (\<lambda>acc c. 10 * acc + (int (of_char c) - 48)) 0 s"

subsection \<open>Doubles\<close>

text \<open>
  Powers of ten and of two with an integer exponent, and \<open>\<lfloor>log\<^sub>2 a\<rfloor>\<close> for a positive
  rational \<open>a\<close>, from the lengths in bits of its numerator and denominator.
\<close>

definition pow10 :: "int \<Rightarrow> rat" where
  "pow10 e = (if 0 \<le> e then 10 ^ nat e else 1 / 10 ^ nat (- e))"

definition pow2 :: "int \<Rightarrow> rat" where
  "pow2 e = (if 0 \<le> e then 2 ^ nat e else 1 / 2 ^ nat (- e))"

fun bits :: "nat \<Rightarrow> nat" where
  "bits n = (if n = 0 then 0 else Suc (bits (n div 2)))"

declare bits.simps [simp del]

definition ilog2 :: "rat \<Rightarrow> int" where
  "ilog2 a =
     (let (n, d) = quotient_of a;
          e = int (bits (nat n)) - int (bits (nat d))
      in if pow2 e \<le> a then e else e - 1)"

definition round_half_even :: "rat \<Rightarrow> int" where
  "round_half_even m =
     (let f = \<lfloor>m\<rfloor>; r = m - of_int f
      in if r < 1 / 2 then f else if 1 / 2 < r then f + 1 else if even f then f else f + 1)"

text \<open>
  The double nearest to a rational number, ties to the even significand: 53 bits of
  significand, the least exponent of a unit in the last place is \<open>-1074\<close>, and a result of
  \<open>2^1024\<close> or more is an infinity.
\<close>

definition to_double :: "rat \<Rightarrow> rat ext" where
  "to_double q =
     (if q = 0 then Fin 0
      else
        (let a = \<bar>q\<bar>;
             e = ilog2 a;
             p = max (e - 52) (- 1074);
             m = round_half_even (a / pow2 p)
         in if 1024 \<le> e \<or> (e = 1023 \<and> m = 9007199254740992)
            then (if 0 < q then PosInf else NegInf)
            else Fin ((if 0 < q then 1 else - 1) * (of_int m * pow2 p))))"

subsection \<open>Numbers to strings\<close>

text \<open>
  \<open>String(x)\<close> for a positive double \<open>x\<close> takes the least number \<open>k\<close> of digits such that a
  \<open>k\<close>-digit integer \<open>s\<close> times a power of ten reads back as \<open>x\<close>; of two such \<open>s\<close> the one
  nearer to \<open>x\<close>, and the even one when they are as near. \<open>dec_exp a\<close> is the \<open>n\<close> with
  \<open>10^(n-1) \<le> a < 10^n\<close>. Seventeen digits always suffice for a double.
\<close>

definition dec_exp :: "rat \<Rightarrow> int" where
  "dec_exp a =
     (if 1 \<le> a then int (length (digits (nat \<lfloor>a\<rfloor>)))
      else (let d = int (length (digits (nat \<lfloor>1 / a\<rfloor>)))
            in if a = pow10 (1 - d) then 2 - d else 1 - d))"

definition candidate :: "rat \<Rightarrow> int \<Rightarrow> nat \<Rightarrow> int option" where
  "candidate a n k =
     (let scale = pow10 (n - int k);
          lo = \<lfloor>a / scale\<rfloor>;
          hi = lo + 1;
          okl = (to_double (of_int lo * scale) = Fin a);
          okh = (to_double (of_int hi * scale) = Fin a);
          dl = a - of_int lo * scale;
          dh = of_int hi * scale - a
      in if okl \<and> okh then
           Some (if dl < dh then lo else if dh < dl then hi else if even lo then lo else hi)
         else if okl then Some lo
         else if okh then Some hi
         else None)"

fun shortest :: "rat \<Rightarrow> int \<Rightarrow> nat list \<Rightarrow> int \<times> nat" where
  "shortest a n [] = (round_half_even (a / pow10 (n - 17)), 17)"
| "shortest a n (k # ks) =
     (case candidate a n k of Some s \<Rightarrow> (s, k) | None \<Rightarrow> shortest a n ks)"

definition strip_zeros :: "string \<Rightarrow> string" where
  "strip_zeros ds = rev (dropWhile (\<lambda>c. c = CHR ''0'') (rev ds))"

definition zeros :: "int \<Rightarrow> string" where
  "zeros n = replicate (nat n) (CHR ''0'')"

definition exponent_text :: "int \<Rightarrow> string" where
  "exponent_text e =
     (if e < 0 then CHR ''-'' # digits (nat (- e)) else CHR ''+'' # digits (nat e))"

text \<open>
  The digits are laid out as the language prescribes: plain up to 21 integer digits,
  with leading zeros down to \<open>10^-6\<close>, in exponent notation otherwise.
\<close>

definition positive_toString :: "rat \<Rightarrow> string" where
  "positive_toString a =
     (let n0 = dec_exp a;
          (s, k0) = shortest a n0 [1 ..< 18];
          n = n0 - int k0 + int (length (digits (nat s)));
          ds = strip_zeros (digits (nat s));
          k = int (length ds)
      in if k \<le> n \<and> n \<le> 21 then ds @ zeros (n - k)
         else if 0 < n \<and> n \<le> 21 then take (nat n) ds @ CHR ''.'' # drop (nat n) ds
         else if - 6 < n \<and> n \<le> 0 then ''0.'' @ zeros (- n) @ ds
         else if k = 1 then ds @ CHR ''e'' # exponent_text (n - 1)
         else hd ds # CHR ''.'' # tl ds @ CHR ''e'' # exponent_text (n - 1))"

definition Number_toString :: "rat ext \<Rightarrow> string" where
  "Number_toString x =
     (case x of
        NaN \<Rightarrow> ''NaN''
      | PosInf \<Rightarrow> ''Infinity''
      | NegInf \<Rightarrow> ''-Infinity''
      | Fin q \<Rightarrow>
          if q = 0 then ''0''
          else if q < 0 then CHR ''-'' # positive_toString (- q)
          else positive_toString q)"

text \<open>\<open>String(value)\<close>.\<close>

fun String_js :: "jsval \<Rightarrow> string" where
  "String_js JUndefined = ''undefined''"
| "String_js JNull = ''null''"
| "String_js (JBool b) = (if b then ''true'' else ''false'')"
| "String_js (JNum x) = Number_toString x"
| "String_js (JStr s) = s"

subsection \<open>Strings to numbers\<close>

fun negate_ext :: "rat ext \<Rightarrow> rat ext" where
  "negate_ext (Fin q) = Fin (- q)"
| "negate_ext PosInf = NegInf"
| "negate_ext NegInf = PosInf"
| "negate_ext NaN = NaN"

text \<open>
  The exponent part at the head of a text, \<open>e\<close> or \<open>E\<close>, an optional sign and at least one
  digit: its value and the rest of the text.
\<close>

definition exponent_part :: "string \<Rightarrow> (int \<times> string) option" where
  "exponent_part s =
     (case s of
        [] \<Rightarrow> None
      | c # r \<Rightarrow>
          if c = CHR ''e'' \<or> c = CHR ''E'' then
            (let (neg, r1) =
                   (case r of
                      [] \<Rightarrow> (False, r)
                    | x # r' \<Rightarrow>
                        if x = CHR ''+'' then (False, r')
                        else if x = CHR ''-'' then (True, r')
                        else (False, r));
                 ds = takeWhile is_digit r1
             in if ds = [] then None
                else Some ((if neg then - 1 else 1) * digits_value ds, dropWhile is_digit r1))
          else None)"

text \<open>
  The longest unsigned decimal literal at the head of a text, with its value as a double
  and the rest of the text: \<open>Infinity\<close>, or digits with an optional fraction and an
  optional exponent, or a fraction that starts with the point.
\<close>

definition unsigned_decimal :: "string \<Rightarrow> (rat ext \<times> string) option" where
  "unsigned_decimal s =
     (if starts_with s ''Infinity'' then Some (PosInf, drop 8 s)
      else
        (let ip = takeWhile is_digit s;
             r1 = dropWhile is_digit s;
             (fp, r2) =
               (case r1 of
                  [] \<Rightarrow> ([], r1)
                | c # r \<Rightarrow>
                    if c = CHR ''.'' then (takeWhile is_digit r, dropWhile is_digit r)
                    else ([], r1))
         in if ip = [] \<and> fp = [] then None
            else
              (let (e, r3) = (case exponent_part r2 of None \<Rightarrow> (0, r2) | Some er \<Rightarrow> er)
               in Some (to_double (of_int (digits_value (ip @ fp)) * pow10 (e - int (length fp))),
                        r3))))"

definition signed_decimal :: "string \<Rightarrow> (rat ext \<times> string) option" where
  "signed_decimal s =
     (case s of
        [] \<Rightarrow> None
      | c # r \<Rightarrow>
          if c = CHR ''+'' then unsigned_decimal r
          else if c = CHR ''-'' then map_option (\<lambda>(v, rest). (negate_ext v, rest)) (unsigned_decimal r)
          else unsigned_decimal (c # r))"

text \<open>
  A literal with a radix prefix, \<open>0x\<close>, \<open>0o\<close> or \<open>0b\<close> in either case, followed by at least
  one digit of that radix and nothing else.
\<close>

definition radix_digit :: "char \<Rightarrow> int" where
  "radix_digit c =
     (let n = int (of_char c)
      in if 48 \<le> n \<and> n \<le> 57 then n - 48
         else if 97 \<le> n \<and> n \<le> 102 then n - 87
         else if 65 \<le> n \<and> n \<le> 70 then n - 55
         else 16)"

definition radix_value :: "int \<Rightarrow> string \<Rightarrow> int option" where
  "radix_value radix s =
     (if s \<noteq> [] \<and> list_all (\<lambda>c. radix_digit c < radix) s
      then Some (foldl (\<lambda>acc c. radix * acc + radix_digit c) 0 s)
      else None)"

definition non_decimal :: "string \<Rightarrow> rat ext option" where
  "non_decimal s =
     (case s of
        z # c # r \<Rightarrow>
          if z = CHR ''0'' then
            (let radix =
                   (if c = CHR ''x'' \<or> c = CHR ''X'' then 16
                    else if c = CHR ''o'' \<or> c = CHR ''O'' then 8
                    else if c = CHR ''b'' \<or> c = CHR ''B'' then 2
                    else 0)
             in if radix = 0 then None
                else map_option (\<lambda>n. to_double (of_int n)) (radix_value radix r))
          else None
      | _ \<Rightarrow> None)"

text \<open>
  \<open>Number(s)\<close> for a string: white space around the literal is dropped, the empty string
  is \<open>0\<close>, and the whole of what is left must be one literal.
\<close>

definition StringToNumber :: "string \<Rightarrow> rat ext" where
  "StringToNumber s =
     (let t = trim s
      in if t = [] then Fin 0
         else
           (case non_decimal t of
              Some v \<Rightarrow> v
            | None \<Rightarrow>
                (case signed_decimal t of
                   None \<Rightarrow> NaN
                 | Some (v, rest) \<Rightarrow> if rest = [] then v else NaN)))"

fun ToNumber :: "jsval \<Rightarrow> rat ext" where
  "ToNumber JUndefined = NaN"
| "ToNumber JNull = Fin 0"
| "ToNumber (JBool b) = Fin (if b then 1 else 0)"
| "ToNumber (JNum n) = n"
| "ToNumber (JStr s) = StringToNumber s"

definition isNaN :: "jsval \<Rightarrow> bool" where
  "isNaN v = (ToNumber v = NaN)"

text \<open>
  \<open>parseFloat(v)\<close> reads the longest decimal literal at the head of \<open>String(v)\<close> after
  leading white space, and is NaN when there is none. For a number \<open>v\<close> the text
  \<open>String(v)\<close> is the shortest one that reads back as \<open>v\<close>, so that \<open>parseFloat(v)\<close> is
  \<open>v\<close> (lemma \<open>String_reads_back\<close> below runs the long way on examples).
\<close>

definition parseFloat :: "jsval \<Rightarrow> jsval" where
  "parseFloat v =
     (case v of
        JNum x \<Rightarrow> JNum x
      | _ \<Rightarrow>
          JNum (case signed_decimal (dropWhile is_ws (String_js v)) of
                  None \<Rightarrow> NaN
                | Some (x, rest) \<Rightarrow> x))"

subsection \<open>Comparison and sorting\<close>

text \<open>\<open>x < y\<close> on numbers; every comparison with NaN is false.\<close>

fun lt_ext :: "'a::linorder ext \<Rightarrow> 'a ext \<Rightarrow> bool" where
  "lt_ext NaN y = False"
| "lt_ext x NaN = False"
| "lt_ext (Fin a) (Fin b) = (a < b)"
| "lt_ext (Fin a) PosInf = True"
| "lt_ext (Fin a) NegInf = False"
| "lt_ext PosInf y = False"
| "lt_ext NegInf NegInf = False"
| "lt_ext NegInf y = True"

text \<open>Strings compare by their characters' codes, a proper prefix first.\<close>

fun str_lt :: "string \<Rightarrow> string \<Rightarrow> bool" where
  "str_lt [] [] = False"
| "str_lt [] (y # ys) = True"
| "str_lt (x # xs) [] = False"
| "str_lt (x # xs) (y # ys) =
     (if x = y then str_lt xs ys else (of_char x :: nat) < of_char y)"

text \<open>
  \<open>a < b\<close> and \<open>a > b\<close> on values: two strings compare as strings, any other pair is
  converted to numbers.
\<close>

fun js_lt :: "jsval \<Rightarrow> jsval \<Rightarrow> bool" where
  "js_lt (JStr s) (JStr t) = str_lt s t"
| "js_lt a b = lt_ext (ToNumber a) (ToNumber b)"

definition js_gt :: "jsval \<Rightarrow> jsval \<Rightarrow> bool" where
  "js_gt a b = js_lt b a"

text \<open>
  \<open>Array.prototype.sort(cmp)\<close> is a built-in of the engine, and which algorithm it runs is
  not fixed by the language. It is a parameter of the model, of which only this is
  assumed: the result has the same elements as the array, and when \<open>cmp\<close> orders the
  elements of the array (they are distinct, of any two exactly one is before the other,
  and being before is transitive) the result is in that order. Nothing is assumed about
  the order in which an engine leaves elements that \<open>cmp\<close> does not order, such as two
  records with equal keys, of which the comparison function of \<open>sort\<close> below puts each
  before the other. The contract asks nothing of \<open>cmp a a\<close>: it is the contract of an
  engine that compares elements at different positions of the array only, as merge
  sorts and insertion sorts do. The language standard promises an order only when
  \<open>cmp a a\<close> is 0 as well, which the comparison function of \<open>sort\<close> never returns.
\<close>

type_synonym 'a sorter = "('a \<Rightarrow> 'a \<Rightarrow> int) \<Rightarrow> 'a list \<Rightarrow> 'a list"

definition orders :: "('a \<Rightarrow> 'a \<Rightarrow> int) \<Rightarrow> 'a list \<Rightarrow> bool" where
  "orders cmp xs =
     (distinct xs \<and>
      (\<forall>a \<in> set xs. \<forall>b \<in> set xs. a \<noteq> b \<longrightarrow> cmp a b \<noteq> 0 \<and> (cmp a b < 0) = (0 < cmp b a)) \<and>
      (\<forall>a \<in> set xs. \<forall>b \<in> set xs. \<forall>c \<in> set xs. cmp a b < 0 \<and> cmp b c < 0 \<longrightarrow> cmp a c < 0))"

definition sort_contract :: "'a sorter \<Rightarrow> bool" where
  "sort_contract engine =
     (\<forall>cmp xs.
        mset (engine cmp xs) = mset xs \<and>
        (orders cmp xs \<longrightarrow> sorted_wrt (\<lambda>a b. cmp a b < 0) (engine cmp xs)))"

text \<open>
  One engine that meets the contract: a stable insertion sort that places \<open>x\<close> before \<open>y\<close>
  unless \<open>cmp x y > 0\<close>.
\<close>

fun insert_by :: "('a \<Rightarrow> 'a \<Rightarrow> int) \<Rightarrow> 'a \<Rightarrow> 'a list \<Rightarrow> 'a list" where
  "insert_by cmp x [] = [x]"
| "insert_by cmp x (y # ys) = (if 0 < cmp x y then y # insert_by cmp x ys else x # y # ys)"

definition insertion_sort :: "'a sorter" where
  "insertion_sort cmp xs = foldr (insert_by cmp) xs []"

section \<open>The data table component\<close>

text \<open>
  The object that \<open>dataTable(config)\<close> returns, as a record. \<open>config.columns\<close> is read by
  no operation of the component and is left out. \<open>totalPages\<close> is the result of a
  division and can be infinite or NaN; the other numbers are integers.
\<close>

record table_config =
  apiUrl :: string
  serverSide :: bool

record table =
  data :: "row list"
  filteredData :: "row list"
  loading :: bool
  error :: "string option"
  currentPage :: int
  pageSize :: int
  totalPages :: "int ext"
  totalRecords :: int
  sortField :: "string option"
  sortDirection :: string
  search :: string
  filters :: "(string \<times> jsval) list"
  config :: table_config

definition dataTable :: "table_config \<Rightarrow> table" where
  "dataTable cfg =
     \<lparr>data = [], filteredData = [], loading = False, error = None,
      currentPage = 1, pageSize = 25, totalPages = Fin 1, totalRecords = 0,
      sortField = None, sortDirection = ''asc'', search = [], filters = [],
      config = cfg\<rparr>"

subsection \<open>Pagination\<close>

text \<open>
  \<open>a / b\<close> on numbers: dividing by zero gives an infinity, and \<open>0 / 0\<close> gives NaN.
\<close>

definition divide_js :: "int \<Rightarrow> int \<Rightarrow> rat ext" where
  "divide_js a b =
     (if b = 0 then (if a = 0 then NaN else if 0 < a then PosInf else NegInf)
      else Fin (of_int a / of_int b))"

fun Math_ceil :: "rat ext \<Rightarrow> int ext" where
  "Math_ceil (Fin q) = Fin \<lceil>q\<rceil>"
| "Math_ceil PosInf = PosInf"
| "Math_ceil NegInf = NegInf"
| "Math_ceil NaN = NaN"

definition calculatePagination :: "table \<Rightarrow> table" where
  "calculatePagination t =
     t\<lparr>totalPages := Math_ceil (divide_js (totalRecords t) (pageSize t))\<rparr>"

text \<open>\<open>page <= n\<close> for an integer \<open>page\<close>; every comparison with NaN is false.\<close>

fun le_ext :: "int \<Rightarrow> int ext \<Rightarrow> bool" where
  "le_ext p (Fin n) = (p \<le> n)"
| "le_ext p PosInf = True"
| "le_ext p NegInf = False"
| "le_ext p NaN = False"

subsection \<open>Filtering\<close>

text \<open>
  \<open>applyFilters\<close>: the search term is matched against every value of a row, then each
  entry of \<open>filters\<close> with a truthy value narrows the result by its own field.
\<close>

definition search_matches :: "string \<Rightarrow> row \<Rightarrow> bool" where
  "search_matches searchTerm item =
     list_ex (\<lambda>value. includes_str (toLowerCase (String_js value)) searchTerm)
       (Object_values item)"

definition filter_matches :: "string \<Rightarrow> jsval \<Rightarrow> row \<Rightarrow> bool" where
  "filter_matches key value item =
     includes_str (toLowerCase (String_js (get_prop item key)))
       (toLowerCase (String_js value))"

definition applyFilters :: "table \<Rightarrow> table" where
  "applyFilters t =
     (let filtered = data t;
          filtered =
            (if search t \<noteq> [] then
               (let searchTerm = toLowerCase (search t)
                in filter (search_matches searchTerm) filtered)
             else filtered);
          filtered =
            foldl (\<lambda>acc (key, value).
                     if truthy value then filter (filter_matches key value) acc else acc)
              filtered (filters t)
      in t\<lparr>filteredData := filtered, totalRecords := int (length filtered)\<rparr>)"

subsection \<open>Loading\<close>

text \<open>
  The network is a parameter: it maps a request (the URL and the query parameters) to
  what the \<open>fetch\<close> and the decoding of its body give. There is no test of the status
  of the response, so the decoded body can be the JSON of an error as well. A decoded
  body is \<open>null\<close>, a boolean, a number, an array of rows, or an object, of which only
  \<open>data\<close> (an array of rows, when present) and \<open>total\<close> (an integer, when present) are
  read. A body that is a string, and arrays and \<open>data\<close> that hold something else than
  rows, are outside the model. The message on the console is not modelled. A call runs
  to its end before the next one starts: the points where the source awaits are not
  observed.
\<close>

datatype response =
    RNull
  | RBool bool
  | RNum rat
  | RArray "row list"
  | RObject "row list option" "int option"

datatype fetched = FetchRejected | JsonRejected | Decoded response

type_synonym request = "string \<times> (string \<times> string) list"

type_synonym network = "request \<Rightarrow> fetched"

text \<open>
  \<open>result.data\<close> and \<open>result.total\<close> for a body that is not \<open>null\<close> (a boolean, a number
  and an array have no such properties), and the truthiness of a body.
\<close>

fun result_data :: "response \<Rightarrow> row list option" where
  "result_data (RObject d tot) = d"
| "result_data r = None"

fun result_total :: "response \<Rightarrow> int option" where
  "result_total (RObject d tot) = tot"
| "result_total r = None"

fun truthy_body :: "response \<Rightarrow> bool" where
  "truthy_body RNull = False"
| "truthy_body (RBool b) = b"
| "truthy_body (RNum n) = (n \<noteq> 0)"
| "truthy_body (RArray rows) = True"
| "truthy_body (RObject d tot) = True"

text \<open>
  What \<open>this.data\<close> can hold: an array of rows, or a decoded body that is not one. The
  value of \<open>result.data || result || []\<close> is the array \<open>data\<close> when the body has one,
  else the body itself when it is truthy, else the empty array.
\<close>

datatype held = Rows "row list" | Other response

definition client_value :: "response \<Rightarrow> held" where
  "client_value result =
     (case result_data result of
        Some d \<Rightarrow> Rows d
      | None \<Rightarrow>
          if truthy_body result then
            (case result of RArray rows \<Rightarrow> Rows rows | _ \<Rightarrow> Other result)
          else Rows [])"

text \<open>
  The table after a call of \<open>loadData\<close>. \<open>Intact t\<close> is a table as before, with an array
  of rows in \<open>data\<close>. \<open>Clobbered v t\<close> is the table whose \<open>this.data\<close> has been overwritten
  with \<open>v\<close>, a value that is not an array, before an exception ended the call: its other
  fields are those of \<open>t\<close>, and \<open>data t\<close> is the array that was held before the call. The
  operations of the table are modelled on intact tables.
\<close>

datatype loaded = Intact table | Clobbered response table

fun state_of :: "loaded \<Rightarrow> table" where
  "state_of (Intact t) = t"
| "state_of (Clobbered v t) = t"

fun map_loaded :: "(table \<Rightarrow> table) \<Rightarrow> loaded \<Rightarrow> loaded" where
  "map_loaded f (Intact t) = Intact (f t)"
| "map_loaded f (Clobbered v t) = Clobbered v (f t)"

text \<open>
  The object given to \<open>URLSearchParams\<close>: the five fixed keys, then the spread of
  \<open>filters\<close> and of \<open>params\<close>; a key that is already there keeps its place and takes
  the later value, and every value is converted to its text. (JavaScript moves keys that
  are array indices to the front; no key of the component is one.)
\<close>

definition queryParams :: "table \<Rightarrow> (string \<times> jsval) list \<Rightarrow> (string \<times> string) list" where
  "queryParams t params =
     foldl (\<lambda>acc (k, v). AList.update k (String_js v) acc)
       [(''page'', String_js (JNum (Fin (of_int (currentPage t))))),
        (''size'', String_js (JNum (Fin (of_int (pageSize t))))),
        (''search'', search t),
        (''sort'', (case sortField t of None \<Rightarrow> [] | Some f \<Rightarrow> f)),
        (''direction'', sortDirection t)]
       (filters t @ params)"

text \<open>
  \<open>loadData\<close>. Every exception of the \<open>try\<close> block ends in the \<open>catch\<close>, which sets the
  error: a rejected fetch, a body that cannot be decoded, \<open>result.data\<close> on \<open>null\<close>, and,
  in client-side mode, \<open>[...this.data]\<close> in \<open>applyFilters\<close> on a value that cannot be
  spread, which by then has been assigned to \<open>this.data\<close>. \<open>finally\<close> clears \<open>loading\<close>.
\<close>

definition load_failed :: "table \<Rightarrow> table" where
  "load_failed t = t\<lparr>error := Some ''Failed to load data'', loading := False\<rparr>"

definition loadData :: "network \<Rightarrow> (string \<times> jsval) list \<Rightarrow> table \<Rightarrow> loaded" where
  "loadData net params t0 =
     (let t = t0\<lparr>loading := True, error := None\<rparr>
      in case net (apiUrl (config t), queryParams t params) of
           Decoded result \<Rightarrow>
             (if result = RNull then Intact (load_failed t)
              else if serverSide (config t) then
                (let t = t\<lparr>data := (case result_data result of None \<Rightarrow> [] | Some d \<Rightarrow> d)\<rparr>;
                     t = t\<lparr>totalRecords :=
                             (case result_total result of None \<Rightarrow> 0 | Some n \<Rightarrow> n)\<rparr>;
                     t = t\<lparr>filteredData := data t\<rparr>
                 in Intact ((calculatePagination t)\<lparr>loading := False\<rparr>))
              else
                (case client_value result of
                   Rows rows \<Rightarrow>
                     Intact ((calculatePagination (applyFilters (t\<lparr>data := rows\<rparr>)))
                               \<lparr>loading := False\<rparr>)
                 | Other v \<Rightarrow> Clobbered v (load_failed t)))
         | _ \<Rightarrow> Intact (load_failed t))"

subsection \<open>Sorting\<close>

text \<open>The comparison function that \<open>sort\<close> hands to \<open>Array.prototype.sort\<close>.\<close>

definition compare_rows :: "string \<Rightarrow> string \<Rightarrow> row \<Rightarrow> row \<Rightarrow> int" where
  "compare_rows field direction a b =
     (let valueA = get_prop a field;
          valueB = get_prop b field;
          (valueA, valueB) =
            (if \<not> isNaN valueA \<and> \<not> isNaN valueB
             then (parseFloat valueA, parseFloat valueB)
             else (valueA, valueB))
      in if direction = ''asc''
         then (if js_gt valueA valueB then 1 else - 1)
         else (if js_lt valueA valueB then 1 else - 1))"

text \<open>
  \<open>sort(field)\<close>, with the engine's \<open>Array.prototype.sort\<close> as \<open>engine\<close>. In server-side
  mode \<open>loadData\<close> always leaves an intact table (lemma \<open>loadData_server_intact\<close> below),
  so the operations that reload in that mode give a table.
\<close>

definition sort_tbl :: "row sorter \<Rightarrow> network \<Rightarrow> string \<Rightarrow> table \<Rightarrow> table" where
  "sort_tbl engine net field t0 =
     (let t =
            (if sortField t0 = Some field then
               t0\<lparr>sortDirection := (if sortDirection t0 = ''asc'' then ''desc'' else ''asc'')\<rparr>
             else t0\<lparr>sortField := Some field, sortDirection := ''asc''\<rparr>)
      in if serverSide (config t) then state_of (loadData net [] t)
         else t\<lparr>filteredData :=
                engine (compare_rows field (sortDirection t)) (filteredData t)\<rparr>)"

subsection \<open>Navigation and search\<close>

definition goToPage :: "network \<Rightarrow> int \<Rightarrow> table \<Rightarrow> table" where
  "goToPage net page t =
     (if 1 \<le> page \<and> le_ext page (totalPages t) then
        (let t = t\<lparr>currentPage := page\<rparr>
         in if serverSide (config t) then state_of (loadData net [] t) else t)
      else t)"

definition nextPage :: "network \<Rightarrow> table \<Rightarrow> table" where
  "nextPage net t = goToPage net (currentPage t + 1) t"

definition prevPage :: "network \<Rightarrow> table \<Rightarrow> table" where
  "prevPage net t = goToPage net (currentPage t - 1) t"

definition performSearch :: "network \<Rightarrow> table \<Rightarrow> table" where
  "performSearch net t =
     (if serverSide (config t) then state_of (loadData net [] (t\<lparr>currentPage := 1\<rparr>))
      else calculatePagination ((applyFilters t)\<lparr>currentPage := 1\<rparr>))"

definition init :: "network \<Rightarrow> table \<Rightarrow> loaded" where
  "init net t = map_loaded calculatePagination (loadData net [] t)"

subsection \<open>Example tables and networks\<close>

definition client_config :: table_config where
  "client_config = \<lparr>apiUrl = ''/api/cars/'', serverSide = False\<rparr>"

definition server_config :: table_config where
  "server_config = \<lparr>apiUrl = ''/api/cars/'', serverSide = True\<rparr>"

definition net_down :: network where
  "net_down = (\<lambda>req. FetchRejected)"

definition net_bad_json :: network where
  "net_bad_json = (\<lambda>req. JsonRejected)"

definition table_47 :: table where
  "table_47 = (dataTable client_config)\<lparr>totalRecords := 47, totalPages := Fin 2\<rparr>"

text \<open>The total number of pages is the one that \<open>calculatePagination\<close> computes.\<close>

definition paginated :: "table \<Rightarrow> bool" where
  "paginated t = (totalPages t = Math_ceil (divide_js (totalRecords t) (pageSize t)))"

section \<open>The price estimator page\<close>

text \<open>
  The part of the document that the scripts of the estimator read and write: the five
  selectors of the cascade, the \<open>input\<close> elements, the submit button, the dialogs shown,
  the console, the requests sent, and the number of \<open>form.submit()\<close> calls scheduled.
  The elements that the scripts look up by id exist. An event handler runs to its end
  before the next event is handled: the points where the source awaits are not observed.
\<close>

datatype select_id = categorySelect | brandSelect | modelSelect | variantSelect | yearSelect

record option_el =
  opt_value :: string
  opt_text :: string
  opt_disabled :: bool
  opt_selected :: bool

record select_el =
  sel_options :: "option_el list"
  sel_disabled :: bool

text \<open>
  An \<open>input\<close> element: its name, its type in lower case, whether it carries \<open>required\<close>
  and whether it is checked. \<open>inp_card_title\<close> is the text of the first \<open>h4\<close> inside the
  closest ancestor of class \<open>card-body\<close>, when there is one. Names contain no quote or
  backslash, so that they can stand in a selector.
\<close>

record input_el =
  inp_name :: string
  inp_type :: string
  inp_required :: bool
  inp_checked :: bool
  inp_card_title :: "string option"

record button_el =
  btn_disabled :: bool
  btn_classList :: "string list"
  btn_innerHTML :: string
  btn_originalText :: "string option"

text \<open>
  The endpoints of \<open>API_URLS\<close> (an object of the page template) and a request: the
  endpoint with its query parameters, before URL encoding. The network is a parameter
  that maps a request to what \<open>fetch\<close> and \<open>response.json()\<close> give: a rejected fetch, a body
  that is not JSON, a JSON value without \<open>forEach\<close>, or an array of items, each item as
  the text that a template literal makes of it. Item texts contain no HTML markup.
\<close>

datatype endpoint = Categories | Brands | Models | Variants | Years

type_synonym api_request = "endpoint \<times> (string \<times> string) list"

datatype api_result = NetworkError | InvalidJson | NotAnArray | Items "string list"

type_synonym api = "api_request \<Rightarrow> api_result"

record page =
  selects :: "select_id \<Rightarrow> select_el"
  inputs :: "input_el list"
  submitBtn :: button_el
  alerts :: "string list"
  console :: "string list"
  requests :: "api_request list"
  submits :: nat

subsection \<open>Elements\<close>

text \<open>
  The value of a selector is the value of its first selected option, and the empty
  string when no option is selected.
\<close>

definition sel_value :: "select_el \<Rightarrow> string" where
  "sel_value s = (case filter opt_selected (sel_options s) of [] \<Rightarrow> [] | x # xs \<Rightarrow> opt_value x)"

definition value_of :: "page \<Rightarrow> select_id \<Rightarrow> string" where
  "value_of d i = sel_value (selects d i)"

text \<open>
  Assigning \<open>innerHTML\<close> replaces the options. When none of the new options carries
  \<open>selected\<close>, the browser selects the first one that is not disabled.
\<close>

fun select_first_enabled :: "option_el list \<Rightarrow> option_el list" where
  "select_first_enabled [] = []"
| "select_first_enabled (x # xs) =
     (if opt_disabled x then x # select_first_enabled xs else x\<lparr>opt_selected := True\<rparr> # xs)"

definition parsed_options :: "option_el list \<Rightarrow> option_el list" where
  "parsed_options xs = (if list_ex opt_selected xs then xs else select_first_enabled xs)"

definition set_innerHTML :: "select_id \<Rightarrow> option_el list \<Rightarrow> page \<Rightarrow> page" where
  "set_innerHTML i xs d =
     d\<lparr>selects := (selects d)(i := (selects d i)\<lparr>sel_options := parsed_options xs\<rparr>)\<rparr>"

definition set_disabled :: "select_id \<Rightarrow> bool \<Rightarrow> page \<Rightarrow> page" where
  "set_disabled i b d = d\<lparr>selects := (selects d)(i := (selects d i)\<lparr>sel_disabled := b\<rparr>)\<rparr>"

text \<open>\<open><option value="" disabled selected>text</option>\<close> and \<open><option value="x">x</option>\<close>.\<close>

definition placeholder_opt :: "string \<Rightarrow> option_el" where
  "placeholder_opt text =
     \<lparr>opt_value = [], opt_text = text, opt_disabled = True, opt_selected = True\<rparr>"

definition item_opt :: "string \<Rightarrow> option_el" where
  "item_opt x = \<lparr>opt_value = x, opt_text = x, opt_disabled = False, opt_selected = False\<rparr>"

text \<open>\<open>classList.add\<close>, \<open>classList.remove\<close> and \<open>classList.toggle(token, force)\<close>.\<close>

definition class_add :: "string \<Rightarrow> string list \<Rightarrow> string list" where
  "class_add c cl = (if c \<in> set cl then cl else cl @ [c])"

definition class_remove :: "string \<Rightarrow> string list \<Rightarrow> string list" where
  "class_remove c cl = filter (\<lambda>x. x \<noteq> c) cl"

definition class_toggle :: "string \<Rightarrow> bool \<Rightarrow> string list \<Rightarrow> string list" where
  "class_toggle c force cl = (if force then class_add c cl else class_remove c cl)"

text \<open>\<open>document.querySelector('input[name="g"]:checked') !== null\<close>.\<close>

definition group_checked :: "page \<Rightarrow> string \<Rightarrow> bool" where
  "group_checked d groupName =
     list_ex (\<lambda>i. inp_name i = groupName \<and> inp_checked i) (inputs d)"

text \<open>Dialogs, the console and the network.\<close>

definition showError :: "string \<Rightarrow> page \<Rightarrow> page" where
  "showError message d = d\<lparr>alerts := alerts d @ [message]\<rparr>"

definition console_error :: "string \<Rightarrow> page \<Rightarrow> page" where
  "console_error message d = d\<lparr>console := console d @ [message]\<rparr>"

definition fetch_json :: "api \<Rightarrow> api_request \<Rightarrow> page \<Rightarrow> api_result \<times> page" where
  "fetch_json net req d = (net req, d\<lparr>requests := requests d @ [req]\<rparr>)"

subsection \<open>Resetting and validating\<close>

definition getPlaceholderText :: "select_id \<Rightarrow> string" where
  "getPlaceholderText selectId =
     (case selectId of
        brandSelect \<Rightarrow> ''Pilih Brand''
      | modelSelect \<Rightarrow> ''Pilih Model''
      | variantSelect \<Rightarrow> ''Pilih Variant''
      | yearSelect \<Rightarrow> ''Pilih Tahun''
      | categorySelect \<Rightarrow> ''Pilih'')"

definition resetSelects :: "select_id list \<Rightarrow> page \<Rightarrow> page" where
  "resetSelects selectIds d =
     foldl (\<lambda>d i. set_disabled i True
                    (set_innerHTML i [placeholder_opt (getPlaceholderText i)] d))
       d selectIds"

definition showLoading :: "select_id \<Rightarrow> page \<Rightarrow> page" where
  "showLoading i d = set_disabled i True (set_innerHTML i [placeholder_opt ''Loading...''] d)"

definition requiredRadioGroups :: "string list" where
  "requiredRadioGroups =
     [''exterior_condition'', ''interior_condition'', ''mechanical_condition'',
      ''accident_history'', ''service_history'', ''number_of_owners'', ''tires_brakes'',
      ''modifications'', ''market_demand'', ''brand_category'', ''price_tier'']"

text \<open>
  The end of both \<open>validateForm\<close> functions: the button is disabled unless the form is
  valid, and its classes follow.
\<close>

definition update_submitBtn :: "bool \<Rightarrow> page \<Rightarrow> page" where
  "update_submitBtn isValid d =
     (let b = submitBtn d;
          b = b\<lparr>btn_disabled := \<not> isValid\<rparr>;
          b = b\<lparr>btn_classList := class_toggle ''disabled:opacity-50'' (\<not> isValid) (btn_classList b)\<rparr>;
          b = (if isValid then
                 b\<lparr>btn_classList :=
                     class_remove ''btn-disabled'' (class_add ''btn-primary'' (btn_classList b))\<rparr>
               else
                 b\<lparr>btn_classList :=
                     class_add ''btn-disabled'' (class_remove ''btn-primary'' (btn_classList b))\<rparr>)
      in d\<lparr>submitBtn := b\<rparr>)"

definition validateForm :: "page \<Rightarrow> page" where
  "validateForm d =
     (let category = value_of d categorySelect;
          brand = value_of d brandSelect;
          model = value_of d modelSelect;
          variant = value_of d variantSelect;
          year = value_of d yearSelect;
          allRadiosSelected = list_all (group_checked d) requiredRadioGroups;
          isValid = (category \<noteq> [] \<and> brand \<noteq> [] \<and> model \<noteq> [] \<and> variant \<noteq> [] \<and>
                     year \<noteq> [] \<and> allRadiosSelected)
      in update_submitBtn isValid d)"

definition getReadableFieldName :: "string \<Rightarrow> string" where
  "getReadableFieldName fieldName =
     (case map_of
        [(''exterior_condition'', ''Exterior Condition''),
         (''interior_condition'', ''Interior Condition''),
         (''mechanical_condition'', ''Mechanical Condition''),
         (''accident_history'', ''Accident History''),
         (''service_history'', ''Service History''),
         (''number_of_owners'', ''Number of Owners''),
         (''tires_brakes'', ''Tires & Brakes''),
         (''modifications'', ''Modifications''),
         (''market_demand'', ''Market Demand''),
         (''brand_category'', ''Brand Category''),
         (''price_tier'', ''Price Tier'')] fieldName of
        Some name \<Rightarrow> name
      | None \<Rightarrow> fieldName)"

text \<open>
  The loop of \<open>validateFormBeforeSubmit\<close> over the radio groups: the first group without
  a checked input ends it with its message.
\<close>

fun check_groups :: "(string \<Rightarrow> string) \<Rightarrow> string list \<Rightarrow> page \<Rightarrow> bool \<times> page" where
  "check_groups message [] d = (True, d)"
| "check_groups message (groupName # rest) d =
     (if \<not> group_checked d groupName then (False, showError (message groupName) d)
      else check_groups message rest d)"

definition validateFormBeforeSubmit :: "page \<Rightarrow> bool \<times> page" where
  "validateFormBeforeSubmit d =
     (let category = value_of d categorySelect;
          brand = value_of d brandSelect;
          model = value_of d modelSelect;
          variant = value_of d variantSelect;
          year = value_of d yearSelect
      in if category = [] \<or> brand = [] \<or> model = [] \<or> variant = [] \<or> year = [] then
           (False, showError ''Silakan lengkapi semua spesifikasi kendaraan.'' d)
         else
           check_groups
             (\<lambda>groupName. ''Silakan pilih kondisi untuk '' @ getReadableFieldName groupName @ ''.'')
             requiredRadioGroups d)"

text \<open>
  The button while the form is being sent: the markup of the spinner, with the line
  breaks and the indentation of the template literal. \<open>submitForm\<close> schedules one
  \<open>form.submit()\<close>.
\<close>

definition spinner_html :: string where
  \<open>spinner_html =
     CHR 0x0A # ''        <span class="loading loading-spinner loading-sm mr-2"></span>'' @
     CHR 0x0A # ''        Memproses...'' @
     CHR 0x0A # ''    ''\<close>

definition showLoadingState :: "page \<Rightarrow> page" where
  "showLoadingState d =
     (let b = submitBtn d;
          originalText = btn_innerHTML b;
          b = b\<lparr>btn_disabled := True\<rparr>;
          b = b\<lparr>btn_innerHTML := spinner_html\<rparr>;
          b = b\<lparr>btn_originalText := Some originalText\<rparr>
      in d\<lparr>submitBtn := b\<rparr>)"

definition submitForm :: "page \<Rightarrow> page" where
  "submitForm d = d\<lparr>submits := submits d + 1\<rparr>"

text \<open>The listener of the form's \<open>submit\<close> event; the default action is always prevented.\<close>

definition onSubmit :: "page \<Rightarrow> page" where
  "onSubmit d =
     (let (ok, d) = validateFormBeforeSubmit d
      in if \<not> ok then d else submitForm (showLoadingState d))"

subsection \<open>Loading the options of a level\<close>

text \<open>
  What the \<open>try\<close> block of a handler does with the decoded answer, after \<open>showLoading\<close>
  and the fetch: the placeholder is written, one option is appended for each item, the
  selector is enabled, the levels in \<open>below\<close> are reset and the form is validated. When
  the answer has no \<open>forEach\<close> the exception leaves the placeholder behind; every failure
  is logged and shown with \<open>showError\<close>, and nothing else is done.
\<close>

definition fill_select ::
  "select_id \<Rightarrow> string \<Rightarrow> select_id list \<Rightarrow> string \<Rightarrow> string \<Rightarrow> api_result \<Rightarrow> page \<Rightarrow> page"
where
  "fill_select target placeholder below logged message r d =
     (case r of
        Items xs \<Rightarrow>
          validateForm
            (resetSelects below
              (set_disabled target False
                (set_innerHTML target (placeholder_opt placeholder # map item_opt xs) d)))
      | NotAnArray \<Rightarrow>
          showError message
            (console_error logged (set_innerHTML target [placeholder_opt placeholder] d))
      | _ \<Rightarrow> showError message (console_error logged d))"

definition categoryChange :: "api \<Rightarrow> page \<Rightarrow> page" where
  "categoryChange net d =
     (let category = value_of d categorySelect
      in if category \<noteq> [] then
           (let d = showLoading brandSelect d;
                (r, d) = fetch_json net (Brands, [(''category'', category)]) d
            in fill_select brandSelect ''Pilih Brand'' [modelSelect, variantSelect, yearSelect]
                 ''Error loading brands:'' ''Gagal memuat brand. Silakan coba lagi.'' r d)
         else
           validateForm
             (resetSelects [brandSelect, modelSelect, variantSelect, yearSelect]
               (set_disabled brandSelect True d)))"

definition brandChange :: "api \<Rightarrow> page \<Rightarrow> page" where
  "brandChange net d =
     (let brand = value_of d brandSelect
      in if brand \<noteq> [] then
           (let d = showLoading modelSelect d;
                (r, d) = fetch_json net (Models, [(''brand'', brand)]) d
            in fill_select modelSelect ''Pilih Model'' [variantSelect, yearSelect]
                 ''Error loading models:'' ''Gagal memuat model. Silakan coba lagi.'' r d)
         else validateForm (resetSelects [modelSelect, variantSelect, yearSelect] d))"

definition modelChange :: "api \<Rightarrow> page \<Rightarrow> page" where
  "modelChange net d =
     (let brand = value_of d brandSelect;
          model = value_of d modelSelect
      in if brand \<noteq> [] \<and> model \<noteq> [] then
           (let d = showLoading variantSelect d;
                (r, d) = fetch_json net (Variants, [(''brand'', brand), (''model'', model)]) d
            in fill_select variantSelect ''Pilih Variant'' [yearSelect]
                 ''Error loading variants:'' ''Gagal memuat variant. Silakan coba lagi.'' r d)
         else validateForm (resetSelects [variantSelect, yearSelect] d))"

definition variantChange :: "api \<Rightarrow> page \<Rightarrow> page" where
  "variantChange net d =
     (let brand = value_of d brandSelect;
          model = value_of d modelSelect;
          variant = value_of d variantSelect
      in if brand \<noteq> [] \<and> model \<noteq> [] \<and> variant \<noteq> [] then
           (let d = showLoading yearSelect d;
                (r, d) =
                  fetch_json net
                    (Years, [(''brand'', brand), (''model'', model), (''variant'', variant)]) d
            in fill_select yearSelect ''Pilih Tahun'' []
                 ''Error loading years:'' ''Gagal memuat tahun. Silakan coba lagi.'' r d)
         else validateForm (resetSelects [yearSelect] d))"

text \<open>
  \<open>loadCategories\<close>, run when the page has loaded: it neither shows a loading state nor
  touches the \<open>disabled\<close> flag of the category selector.
\<close>

definition loadCategories :: "api \<Rightarrow> page \<Rightarrow> page" where
  "loadCategories net d =
     (let (r, d) = fetch_json net (Categories, []) d
      in case r of
           Items categories \<Rightarrow>
             set_innerHTML categorySelect
               (placeholder_opt ''Pilih Category'' # map item_opt categories) d
         | NotAnArray \<Rightarrow>
             showError ''Gagal memuat kategori. Silakan refresh halaman.''
               (console_error ''Error loading categories:''
                 (set_innerHTML categorySelect [placeholder_opt ''Pilih Category''] d))
         | _ \<Rightarrow>
             showError ''Gagal memuat kategori. Silakan refresh halaman.''
               (console_error ''Error loading categories:'' d))"

text \<open>
  The \<open>change\<close> listeners that \<open>setupEventListeners\<close> registers, by selector. The handler
  of a selector runs after the selector has taken its new value.
\<close>

fun onChange :: "select_id \<Rightarrow> api \<Rightarrow> page \<Rightarrow> page" where
  "onChange categorySelect net d = categoryChange net d"
| "onChange brandSelect net d = brandChange net d"
| "onChange modelSelect net d = modelChange net d"
| "onChange variantSelect net d = variantChange net d"
| "onChange yearSelect net d = validateForm d"

text \<open>The place of a selector in the cascade, and the selector one level below.\<close>

fun level :: "select_id \<Rightarrow> nat" where
  "level categorySelect = 0"
| "level brandSelect = 1"
| "level modelSelect = 2"
| "level variantSelect = 3"
| "level yearSelect = 4"

fun next_level :: "select_id \<Rightarrow> select_id" where
  "next_level categorySelect = brandSelect"
| "next_level brandSelect = modelSelect"
| "next_level modelSelect = variantSelect"
| "next_level variantSelect = yearSelect"
| "next_level yearSelect = yearSelect"

text \<open>
  A selector is in the reset state when it is disabled and holds only its placeholder.
\<close>

definition is_reset :: "select_id \<Rightarrow> page \<Rightarrow> bool" where
  "is_reset i d =
     (sel_disabled (selects d i) \<and>
      sel_options (selects d i) = [placeholder_opt (getPlaceholderText i)])"

text \<open>The requests that handling an event added to the log, and a failed answer.\<close>

definition issued :: "page \<Rightarrow> page \<Rightarrow> api_request list" where
  "issued d d' = drop (length (requests d)) (requests d')"

fun is_failure :: "api_result \<Rightarrow> bool" where
  "is_failure (Items xs) = False"
| "is_failure r = True"

section \<open>The variant of the estimator without a category level\<close>

text \<open>
  The second estimator script starts its cascade at the brand and finds the required
  radio groups in the document: the names of the radio inputs that carry \<open>required\<close>, each
  once, in document order. Its change handlers are those of the script above with other
  texts.
\<close>

definition unique :: "'a list \<Rightarrow> 'a list" where
  "unique xs = rev (remdups (rev xs))"

definition uniqueGroupNames :: "page \<Rightarrow> string list" where
  "uniqueGroupNames d =
     unique (map inp_name (filter (\<lambda>i. inp_type i = ''radio'' \<and> inp_required i) (inputs d)))"

definition validateForm_part001 :: "page \<Rightarrow> page" where
  "validateForm_part001 d =
     (let brand = value_of d brandSelect;
          model = value_of d modelSelect;
          variant = value_of d variantSelect;
          year = value_of d yearSelect;
          allRadiosSelected = list_all (group_checked d) (uniqueGroupNames d);
          isValid = (brand \<noteq> [] \<and> model \<noteq> [] \<and> variant \<noteq> [] \<and> year \<noteq> [] \<and>
                     allRadiosSelected)
      in update_submitBtn isValid d)"

text \<open>\<open>word.charAt(0).toUpperCase() + word.slice(1)\<close>, \<open>split('_')\<close> and \<open>join(' ')\<close>.\<close>

definition upper_char :: "char \<Rightarrow> char" where
  "upper_char c =
     (let n = (of_char c :: nat) in if 97 \<le> n \<and> n \<le> 122 then char_of (n - 32) else c)"

fun capitalize :: "string \<Rightarrow> string" where
  "capitalize [] = []"
| "capitalize (c # cs) = upper_char c # cs"

fun split_on :: "char \<Rightarrow> string \<Rightarrow> string list" where
  "split_on sep [] = [[]]"
| "split_on sep (c # cs) =
     (if c = sep then [] # split_on sep cs
      else (case split_on sep cs of [] \<Rightarrow> [[c]] | w # ws \<Rightarrow> (c # w) # ws))"

fun join_with :: "string \<Rightarrow> string list \<Rightarrow> string" where
  "join_with sep [] = []"
| "join_with sep [w] = w"
| "join_with sep (w # ws) = w @ sep @ join_with sep ws"

definition getReadableFieldName_part001 :: "page \<Rightarrow> string \<Rightarrow> string" where
  "getReadableFieldName_part001 d fieldName =
     (let fallback = join_with '' '' (map capitalize (split_on (CHR ''_'') fieldName))
      in case find (\<lambda>i. inp_name i = fieldName) (inputs d) of
           None \<Rightarrow> fallback
         | Some radioInput \<Rightarrow>
             (case inp_card_title radioInput of
                None \<Rightarrow> fallback
              | Some title \<Rightarrow> trim title))"

definition validateFormBeforeSubmit_part001 :: "page \<Rightarrow> bool \<times> page" where
  "validateFormBeforeSubmit_part001 d =
     (let brand = value_of d brandSelect;
          model = value_of d modelSelect;
          variant = value_of d variantSelect;
          year = value_of d yearSelect
      in if brand = [] \<or> model = [] \<or> variant = [] \<or> year = [] then
           (False, showError ''Please complete all vehicle specifications.'' d)
         else
           check_groups
             (\<lambda>groupName.
                 ''Please select condition for '' @ getReadableFieldName_part001 d groupName @ ''.'')
             (uniqueGroupNames d) d)"

definition onSubmit_part001 :: "page \<Rightarrow> page" where
  "onSubmit_part001 d =
     (let (ok, d) = validateFormBeforeSubmit_part001 d
      in if \<not> ok then d else submitForm (showLoadingState d))"

section \<open>The assessment page\<close>

text \<open>
  The assessment script has the same cascade on the ids \<open>category\<close>, \<open>brand\<close>, \<open>model\<close>,
  \<open>variant\<close> and \<open>year\<close>. Its options are plain (\<open><option value="">text</option>\<close>), it
  shows no loading state, it does not validate, and a failure is written to the console
  only.
\<close>

definition assessment_id :: "select_id \<Rightarrow> string" where
  "assessment_id i =
     (case i of
        categorySelect \<Rightarrow> ''category''
      | brandSelect \<Rightarrow> ''brand''
      | modelSelect \<Rightarrow> ''model''
      | variantSelect \<Rightarrow> ''variant''
      | yearSelect \<Rightarrow> ''year'')"

definition plain_opt :: "string \<Rightarrow> string \<Rightarrow> option_el" where
  "plain_opt v text =
     \<lparr>opt_value = v, opt_text = text, opt_disabled = False, opt_selected = False\<rparr>"

definition resetSelects_assessment :: "select_id list \<Rightarrow> page \<Rightarrow> page" where
  "resetSelects_assessment selectIds d =
     foldl (\<lambda>d i. set_disabled i True
                    (set_innerHTML i
                      [plain_opt [] (''Pilih '' @ capitalize (assessment_id i))] d))
       d selectIds"

definition fill_select_assessment ::
  "select_id \<Rightarrow> string \<Rightarrow> select_id list \<Rightarrow> string \<Rightarrow> api_result \<Rightarrow> page \<Rightarrow> page"
where
  "fill_select_assessment target placeholder below logged r d =
     (case r of
        Items xs \<Rightarrow>
          resetSelects_assessment below
            (set_disabled target False
              (set_innerHTML target (plain_opt [] placeholder # map item_opt xs) d))
      | NotAnArray \<Rightarrow>
          console_error logged (set_innerHTML target [plain_opt [] placeholder] d)
      | _ \<Rightarrow> console_error logged d)"

definition categoryChange_assessment :: "api \<Rightarrow> page \<Rightarrow> page" where
  "categoryChange_assessment net d =
     (let category = value_of d categorySelect
      in if category \<noteq> [] then
           (let (r, d) = fetch_json net (Brands, [(''category'', category)]) d
            in fill_select_assessment brandSelect ''Pilih Brand''
                 [modelSelect, variantSelect, yearSelect] ''Error loading brands:'' r d)
         else
           resetSelects_assessment [brandSelect, modelSelect, variantSelect, yearSelect]
             (set_disabled brandSelect True d))"

definition brandChange_assessment :: "api \<Rightarrow> page \<Rightarrow> page" where
  "brandChange_assessment net d =
     (let brand = value_of d brandSelect
      in if brand \<noteq> [] then
           (let (r, d) = fetch_json net (Models, [(''brand'', brand)]) d
            in fill_select_assessment modelSelect ''Pilih Model''
                 [variantSelect, yearSelect] ''Error loading models:'' r d)
         else resetSelects_assessment [modelSelect, variantSelect, yearSelect] d)"

definition modelChange_assessment :: "api \<Rightarrow> page \<Rightarrow> page" where
  "modelChange_assessment net d =
     (let brand = value_of d brandSelect;
          model = value_of d modelSelect
      in if brand \<noteq> [] \<and> model \<noteq> [] then
           (let (r, d) = fetch_json net (Variants, [(''brand'', brand), (''model'', model)]) d
            in fill_select_assessment variantSelect ''Pilih Variant''
                 [yearSelect] ''Error loading variants:'' r d)
         else resetSelects_assessment [variantSelect, yearSelect] d)"

definition variantChange_assessment :: "api \<Rightarrow> page \<Rightarrow> page" where
  "variantChange_assessment net d =
     (let brand = value_of d brandSelect;
          model = value_of d modelSelect;
          variant = value_of d variantSelect
      in if brand \<noteq> [] \<and> model \<noteq> [] \<and> variant \<noteq> [] then
           (let (r, d) =
                  fetch_json net
                    (Years, [(''brand'', brand), (''model'', model), (''variant'', variant)]) d
            in fill_select_assessment yearSelect ''Pilih Tahun'' [] ''Error loading years:'' r d)
         else resetSelects_assessment [yearSelect] d)"

fun onChange_assessment :: "select_id \<Rightarrow> api \<Rightarrow> page \<Rightarrow> page" where
  "onChange_assessment categorySelect net d = categoryChange_assessment net d"
| "onChange_assessment brandSelect net d = brandChange_assessment net d"
| "onChange_assessment modelSelect net d = modelChange_assessment net d"
| "onChange_assessment variantSelect net d = variantChange_assessment net d"
| "onChange_assessment yearSelect net d = d"

text \<open>
  \<open>loadCategories\<close> of the assessment script, run when the page is loaded: it never
  disables or enables a selector, and a failure is written to the console only.
\<close>

definition loadCategories_assessment :: "api \<Rightarrow> page \<Rightarrow> page" where
  "loadCategories_assessment net d =
     (let (r, d) = fetch_json net (Categories, []) d
      in case r of
           Items categories \<Rightarrow>
             set_innerHTML categorySelect
               (plain_opt [] ''Pilih Kategori'' # map item_opt categories) d
         | NotAnArray \<Rightarrow>
             console_error ''Error loading categories:''
               (set_innerHTML categorySelect [plain_opt [] ''Pilih Kategori''] d)
         | _ \<Rightarrow> console_error ''Error loading categories:'' d)"

section \<open>Definitions used in the statements\<close>

text \<open>
  A text contains another without regard to case when the lower-cased one occurs in the
  lower-cased other.
\<close>

definition ci_includes :: "string \<Rightarrow> string \<Rightarrow> bool" where
  "ci_includes hay needle = includes_str (toLowerCase hay) (toLowerCase needle)"

text \<open>The rows of a table with a search term and filters, for the examples.\<close>

definition row_toyota :: row where
  "row_toyota = [(''brand'', JStr ''Toyota''), (''year'', JNum (Fin 2020))]"

definition row_honda :: row where
  "row_honda = [(''brand'', JStr ''Honda''), (''year'', JNum (Fin 2019))]"

definition row_hyundai :: row where
  "row_hyundai = [(''brand'', JStr ''Hyundai''), (''year'', JNum (Fin 2020))]"

definition table_cars :: table where
  "table_cars =
     (dataTable client_config)
       \<lparr>data := [row_toyota, row_honda, row_hyundai],
        search := ''Y'', filters := [(''year'', JStr ''20''), (''brand'', JStr ''TO''), (''x'', JNull)]\<rparr>"

definition table_plain :: table where
  "table_plain = (dataTable client_config)\<lparr>data := [row_toyota, row_honda, row_hyundai]\<rparr>"

text \<open>A table that holds two records, and networks that answer with one record.\<close>

definition table_held :: table where
  "table_held =
     (dataTable client_config)
       \<lparr>data := [row_toyota, row_honda], filteredData := [row_honda], totalRecords := 1,
        loading := True\<rparr>"

definition net_array :: network where
  "net_array = (\<lambda>req. Decoded (RArray [row_hyundai]))"

definition net_object :: network where
  "net_object = (\<lambda>req. Decoded (RObject (Some [row_hyundai]) (Some 60)))"

text \<open>
  Networks that answer with the body \<open>null\<close>, and with the JSON of an error, an object
  without \<open>data\<close>.
\<close>

definition net_null :: network where
  "net_null = (\<lambda>req. Decoded RNull)"

definition net_error_body :: network where
  "net_error_body = (\<lambda>req. Decoded (RObject None None))"

text \<open>The number in a field of a row, for rows whose field holds a finite number.\<close>

definition num_of :: "string \<Rightarrow> row \<Rightarrow> rat" where
  "num_of f r = (case get_prop r f of JNum (Fin n) \<Rightarrow> n | _ \<Rightarrow> 0)"

definition has_num :: "string \<Rightarrow> row \<Rightarrow> bool" where
  "has_num f r = (case get_prop r f of JNum (Fin n) \<Rightarrow> True | _ \<Rightarrow> False)"

text \<open>Tables with the records \<open>{a: 2}\<close> and \<open>{a: 10}\<close>, as numbers and as strings.\<close>

definition table_2_10 :: table where
  "table_2_10 =
     (dataTable client_config)
       \<lparr>filteredData := [[(''a'', JNum (Fin 2))], [(''a'', JNum (Fin 10))]]\<rparr>"

definition table_10_2 :: table where
  "table_10_2 =
     (dataTable client_config)
       \<lparr>filteredData := [[(''a'', JNum (Fin 10))], [(''a'', JNum (Fin 2))]]\<rparr>"

definition table_strings :: table where
  "table_strings =
     (dataTable client_config)
       \<lparr>filteredData := [[(''a'', JStr ''10'')], [(''a'', JStr ''2'')]]\<rparr>"

text \<open>The same with the decimal strings \<open>"10.5"\<close> and \<open>"9.5"\<close>.\<close>

definition table_decimals :: table where
  "table_decimals =
     (dataTable client_config)
       \<lparr>filteredData := [[(''a'', JStr ''10.5'')], [(''a'', JStr ''9.5'')]]\<rparr>"

text \<open>
  The first thing that pre-submit validation finds missing, in checking order: the first
  selector without a value, else the first required radio group without a checked
  input.
\<close>

datatype field = Selector select_id | RadioGroup string

definition spec_first_missing :: "page \<Rightarrow> field option" where
  "spec_first_missing d =
     (case filter (\<lambda>i. value_of d i = [])
             [categorySelect, brandSelect, modelSelect, variantSelect, yearSelect] of
        i # rest \<Rightarrow> Some (Selector i)
      | [] \<Rightarrow>
          (case filter (\<lambda>g. \<not> group_checked d g) requiredRadioGroups of
             g # rest \<Rightarrow> Some (RadioGroup g)
           | [] \<Rightarrow> None))"

definition spec_first_missing_part001 :: "page \<Rightarrow> field option" where
  "spec_first_missing_part001 d =
     (case filter (\<lambda>i. value_of d i = [])
             [brandSelect, modelSelect, variantSelect, yearSelect] of
        i # rest \<Rightarrow> Some (Selector i)
      | [] \<Rightarrow>
          (case filter (\<lambda>g. \<not> group_checked d g) (uniqueGroupNames d) of
             g # rest \<Rightarrow> Some (RadioGroup g)
           | [] \<Rightarrow> None))"

text \<open>Example pages: a completed form, and forms with one thing missing.\<close>

definition chosen :: "string \<Rightarrow> string \<Rightarrow> select_el" where
  "chosen text v =
     \<lparr>sel_options = [(placeholder_opt text)\<lparr>opt_selected := False\<rparr>,
                     (item_opt v)\<lparr>opt_selected := True\<rparr>],
      sel_disabled = False\<rparr>"

definition unchosen :: "string \<Rightarrow> string \<Rightarrow> select_el" where
  "unchosen text v =
     \<lparr>sel_options = [placeholder_opt text, item_opt v], sel_disabled = False\<rparr>"

definition radio :: "string \<Rightarrow> bool \<Rightarrow> input_el" where
  "radio g c =
     \<lparr>inp_name = g, inp_type = ''radio'', inp_required = True, inp_checked = c,
      inp_card_title = None\<rparr>"

definition page_complete :: page where
  "page_complete =
     \<lparr>selects = (\<lambda>i. case i of
          categorySelect \<Rightarrow> chosen ''Pilih Category'' ''Sedan''
        | brandSelect \<Rightarrow> chosen ''Pilih Brand'' ''Toyota''
        | modelSelect \<Rightarrow> chosen ''Pilih Model'' ''Vios''
        | variantSelect \<Rightarrow> chosen ''Pilih Variant'' ''G''
        | yearSelect \<Rightarrow> chosen ''Pilih Tahun'' ''2020''),
      inputs = map (\<lambda>g. radio g True) requiredRadioGroups,
      submitBtn =
        \<lparr>btn_disabled = True, btn_classList = [''btn'', ''btn-disabled''],
         btn_innerHTML = ''Hitung'', btn_originalText = None\<rparr>,
      alerts = [], console = [], requests = [], submits = 0\<rparr>"

definition page_no_category :: page where
  "page_no_category =
     page_complete
       \<lparr>selects := (selects page_complete)
          (categorySelect := unchosen ''Pilih Category'' ''Sedan'')\<rparr>"

definition page_no_year :: page where
  "page_no_year =
     page_complete
       \<lparr>selects := (selects page_complete)(yearSelect := unchosen ''Pilih Tahun'' ''2020'')\<rparr>"

definition page_no_tires :: page where
  "page_no_tires =
     page_complete
       \<lparr>inputs := map (\<lambda>g. radio g (g \<noteq> ''tires_brakes'')) requiredRadioGroups\<rparr>"

definition api_down :: api where
  "api_down = (\<lambda>req. NetworkError)"

definition api_items :: api where
  "api_items = (\<lambda>req. Items [''Toyota'', ''Honda''])"

text \<open>
  A page of the assessment script on which a category and a brand are chosen, so that the
  brand selector is enabled.
\<close>

definition page_assessment :: page where
  "page_assessment =
     page_complete
       \<lparr>selects := (\<lambda>i. case i of
            categorySelect \<Rightarrow>
              \<lparr>sel_options = [plain_opt [] ''Pilih Kategori'',
                              (item_opt ''Sedan'')\<lparr>opt_selected := True\<rparr>],
               sel_disabled = False\<rparr>
          | brandSelect \<Rightarrow>
              \<lparr>sel_options = [plain_opt [] ''Pilih Brand'',
                              (item_opt ''Toyota'')\<lparr>opt_selected := True\<rparr>],
               sel_disabled = False\<rparr>
          | _ \<Rightarrow>
              \<lparr>sel_options = [(plain_opt [] ''Pilih'')\<lparr>opt_selected := True\<rparr>],
               sel_disabled = True\<rparr>),
        inputs := []\<rparr>"

section \<open>Properties of the data table\<close>

subsection \<open>What each operation leaves alone\<close>

lemma loadData_keeps:
  "currentPage (state_of (loadData net params t)) = currentPage t"
  "pageSize (state_of (loadData net params t)) = pageSize t"
  "sortField (state_of (loadData net params t)) = sortField t"
  "sortDirection (state_of (loadData net params t)) = sortDirection t"
  "search (state_of (loadData net params t)) = search t"
  "filters (state_of (loadData net params t)) = filters t"
  "config (state_of (loadData net params t)) = config t"
  "loading (state_of (loadData net params t)) = False"
  by (simp_all add: loadData_def load_failed_def applyFilters_def calculatePagination_def
      Let_def split: fetched.split held.split)

text \<open>In server-side mode nothing but an array of rows is ever assigned to \<open>data\<close>.\<close>

lemma loadData_server_intact:
  "serverSide (config t) \<Longrightarrow> \<exists>t'. loadData net params t = Intact t'"
  by (simp add: loadData_def Let_def split: fetched.split)

lemma applyFilters_keeps:
  "currentPage (applyFilters t) = currentPage t"
  "pageSize (applyFilters t) = pageSize t"
  "data (applyFilters t) = data t"
  "config (applyFilters t) = config t"
  by (simp_all add: applyFilters_def Let_def)

subsection \<open>Pagination\<close>

lemma paginated_loadData: "paginated t \<Longrightarrow> paginated (state_of (loadData net params t))"
  by (auto simp add: paginated_def calculatePagination_def loadData_def load_failed_def
        applyFilters_def Let_def
      split: fetched.splits held.splits)

lemma paginated_steps:
  "paginated (calculatePagination t)"
  "paginated (state_of (init net t))"
  "paginated t \<Longrightarrow> paginated (sort_tbl engine net f t)"
  "paginated t \<Longrightarrow> paginated (goToPage net page t)"
  "paginated t \<Longrightarrow> paginated (nextPage net t)"
  "paginated t \<Longrightarrow> paginated (prevPage net t)"
  "paginated t \<Longrightarrow> paginated (performSearch net t)"
proof -
  show "paginated (calculatePagination t)"
    by (simp add: paginated_def calculatePagination_def)
  show "paginated (state_of (init net t))"
    by (cases "loadData net [] t") (simp_all add: init_def paginated_def calculatePagination_def)
  show "paginated t \<Longrightarrow> paginated (sort_tbl engine net f t)"
    using paginated_loadData [of _ net "[]"]
    by (auto simp add: sort_tbl_def Let_def paginated_def)
  show go: "\<And>page. paginated t \<Longrightarrow> paginated (goToPage net page t)"
    using paginated_loadData [of _ net "[]"]
    by (auto simp add: goToPage_def Let_def paginated_def)
  show "paginated t \<Longrightarrow> paginated (nextPage net t)"
    by (simp add: nextPage_def go)
  show "paginated t \<Longrightarrow> paginated (prevPage net t)"
    by (simp add: prevPage_def go)
  show "paginated t \<Longrightarrow> paginated (performSearch net t)"
    using paginated_loadData [of _ net "[]"]
    by (auto simp add: performSearch_def paginated_def calculatePagination_def
        applyFilters_def Let_def)
qed

text \<open>
  C4. \<open>calculatePagination\<close> sets \<open>totalPages\<close> to the ceiling of \<open>totalRecords\<close> divided
  by \<open>pageSize\<close> (for a page size that is not 0): the least number of pages of that size
  that hold all records. With 47 records and pages of 25 it is 2. \<open>goToPage(p)\<close> changes
  nothing, \<open>currentPage\<close> included, when \<open>p < 1\<close> or \<open>p > totalPages\<close>; so \<open>goToPage(3)\<close> is
  a no-op with 47 records and pages of 25. The equation between \<open>totalPages\<close>,
  \<open>totalRecords\<close> and \<open>pageSize\<close> holds after \<open>init\<close> (the constructor starts with one page and
  no records) and every operation of the table keeps it.
\<close>

theorem total_pages_ceiling_goToPage_range:
  "(pageSize t \<noteq> 0 \<longrightarrow>
      totalPages (calculatePagination t) =
        Fin \<lceil>(of_int (totalRecords t) :: rat) / of_int (pageSize t)\<rceil>) \<and>
   (0 < pageSize t \<longrightarrow>
      (\<exists>n. totalPages (calculatePagination t) = Fin n \<and>
           totalRecords t \<le> n * pageSize t \<and> (n - 1) * pageSize t < totalRecords t)) \<and>
   (totalRecords t = 47 \<and> pageSize t = 25 \<longrightarrow>
      totalPages (calculatePagination t) = Fin 2 \<and>
      goToPage net 3 (calculatePagination t) = calculatePagination t) \<and>
   (page < 1 \<or> lt_ext (totalPages t) (Fin page) \<longrightarrow>
      goToPage net page t = t \<and> currentPage (goToPage net page t) = currentPage t) \<and>
   paginated (calculatePagination t) \<and> paginated (state_of (init net t)) \<and>
   (paginated t \<longrightarrow>
      paginated (state_of (loadData net params t)) \<and> paginated (sort_tbl engine net f t) \<and>
      paginated (goToPage net page t) \<and> paginated (nextPage net t) \<and>
      paginated (prevPage net t) \<and> paginated (performSearch net t))"
proof (intro conjI impI)
  assume "pageSize t \<noteq> 0"
  then show "totalPages (calculatePagination t) =
        Fin \<lceil>(of_int (totalRecords t) :: rat) / of_int (pageSize t)\<rceil>"
    by (simp add: calculatePagination_def divide_js_def)
next
  assume pos: "0 < pageSize t"
  let ?q = "(of_int (totalRecords t) :: rat) / of_int (pageSize t)"
  have 1: "totalPages (calculatePagination t) = Fin \<lceil>?q\<rceil>"
    using pos by (simp add: calculatePagination_def divide_js_def)
  have posr: "(0::rat) < of_int (pageSize t)" using pos by simp
  have "?q \<le> of_int \<lceil>?q\<rceil>" by (rule le_of_int_ceiling)
  then have "(of_int (totalRecords t) :: rat) \<le> of_int \<lceil>?q\<rceil> * of_int (pageSize t)"
    using pos_divide_le_eq [OF posr] by blast
  then have 2: "totalRecords t \<le> \<lceil>?q\<rceil> * pageSize t"
    by (metis of_int_le_iff of_int_mult)
  have "of_int \<lceil>?q\<rceil> - 1 < ?q" by linarith
  then have "(of_int \<lceil>?q\<rceil> - 1) * of_int (pageSize t) < (of_int (totalRecords t) :: rat)"
    using pos_less_divide_eq [OF posr] by blast
  then have "(of_int ((\<lceil>?q\<rceil> - 1) * pageSize t) :: rat) < of_int (totalRecords t)"
    by simp
  then have 3: "(\<lceil>?q\<rceil> - 1) * pageSize t < totalRecords t"
    by (simp only: of_int_less_iff)
  from 1 2 3 show "\<exists>n. totalPages (calculatePagination t) = Fin n \<and>
           totalRecords t \<le> n * pageSize t \<and> (n - 1) * pageSize t < totalRecords t"
    by blast
next
  assume a: "totalRecords t = 47 \<and> pageSize t = 25"
  have c: "\<lceil>(47::rat) / 25\<rceil> = 2" by (simp add: ceiling_eq_iff)
  show "totalPages (calculatePagination t) = Fin 2"
    using a c by (simp add: calculatePagination_def divide_js_def)
  then show "goToPage net 3 (calculatePagination t) = calculatePagination t"
    by (simp add: goToPage_def)
next
  assume a: "page < 1 \<or> lt_ext (totalPages t) (Fin page)"
  then have "\<not> (1 \<le> page \<and> le_ext page (totalPages t))"
    by (cases "totalPages t") auto
  then show "goToPage net page t = t" unfolding goToPage_def by (simp only: if_False)
  then show "currentPage (goToPage net page t) = currentPage t" by simp
qed (simp_all add: paginated_steps paginated_loadData)

theorem total_pages_ceiling_goToPage_range_witness:
  "pageSize table_47 = 25 \<and> totalRecords table_47 = 47 \<and>
   lt_ext (totalPages table_47) (Fin 3) \<and>
   totalPages (calculatePagination table_47) = Fin 2 \<and>
   goToPage net_down 3 (calculatePagination table_47) = calculatePagination table_47 \<and>
   goToPage net_down 3 table_47 = table_47 \<and>
   currentPage (goToPage net_down 3 table_47) = 1 \<and>
   paginated table_47 \<and> paginated (state_of (loadData net_down [] table_47)) \<and>
   paginated (performSearch net_down table_47)"
proof -
  have c: "\<lceil>(47::rat) / 25\<rceil> = 2" by (simp add: ceiling_eq_iff)
  have h: "pageSize table_47 = 25" "totalRecords table_47 = 47"
    "lt_ext (totalPages table_47) (Fin 3)" "currentPage table_47 = 1"
    by (simp_all add: table_47_def dataTable_def)
  have p: "paginated table_47"
    by (simp add: paginated_def divide_js_def table_47_def dataTable_def c)
  from total_pages_ceiling_goToPage_range
    [where t = table_47 and net = net_down and page = 3 and params = "[]"
       and engine = insertion_sort and f = "''a''"] h p
  show ?thesis by metis
qed

subsection \<open>Sort direction\<close>

text \<open>
  C6. \<open>sort(field)\<close> on the field that is already the sort field flips the direction
  between \<open>asc\<close> and \<open>desc\<close> and keeps the field, so a second call on the same field
  flips it again; on another field it makes that field the sort field and the direction
  \<open>asc\<close>. This holds in both modes.
\<close>

theorem sort_toggles_direction:
  "(sortField t = Some field \<longrightarrow>
      sortField (sort_tbl engine net field t) = Some field \<and>
      sortDirection (sort_tbl engine net field t) =
        (if sortDirection t = ''asc'' then ''desc'' else ''asc'')) \<and>
   (sortField t \<noteq> Some field \<longrightarrow>
      sortField (sort_tbl engine net field t) = Some field \<and>
      sortDirection (sort_tbl engine net field t) = ''asc'' \<and>
      sortDirection (sort_tbl engine net' field (sort_tbl engine net field t)) = ''desc'') \<and>
   (sortField t = Some field \<and> sortDirection t \<in> {''asc'', ''desc''} \<longrightarrow>
      sortDirection (sort_tbl engine net field t) \<in> {''asc'', ''desc''} \<and>
      sortDirection (sort_tbl engine net field t) \<noteq> sortDirection t \<and>
      sortDirection (sort_tbl engine net' field (sort_tbl engine net field t)) = sortDirection t)"
  by (auto simp add: sort_tbl_def Let_def loadData_keeps)

theorem sort_toggles_direction_witness:
  "sortField (dataTable client_config) \<noteq> Some ''price'' \<and>
   sortField (sort_tbl insertion_sort net_down ''price'' (dataTable client_config)) = Some ''price'' \<and>
   sortDirection (sort_tbl insertion_sort net_down ''price'' (dataTable client_config)) = ''asc'' \<and>
   sortDirection
     (sort_tbl insertion_sort net_down ''price'' (sort_tbl insertion_sort net_down ''price'' (dataTable client_config))) =
     ''desc'' \<and>
   sortDirection
     (sort_tbl insertion_sort net_down ''price''
       (sort_tbl insertion_sort net_down ''price''
         (sort_tbl insertion_sort net_down ''price'' (dataTable server_config)))) = ''asc''"
  using sort_toggles_direction
      [where t = "dataTable client_config" and field = "''price''" and engine = insertion_sort
         and net = net_down and net' = net_down]
    sort_toggles_direction
      [where t = "sort_tbl insertion_sort net_down ''price'' (dataTable server_config)"
         and field = "''price''" and engine = insertion_sort and net = net_down
         and net' = net_down]
    sort_toggles_direction
      [where t = "dataTable server_config" and field = "''price''" and engine = insertion_sort
         and net = net_down and net' = net_down]
  by (simp add: dataTable_def)

subsection \<open>Search\<close>

text \<open>
  C10. After \<open>performSearch()\<close> the current page is 1, in server-side and in client-side
  mode, whatever the network answers.
\<close>

theorem performSearch_first_page: "currentPage (performSearch net t) = 1"
  by (simp add: performSearch_def loadData_keeps calculatePagination_def applyFilters_keeps)

theorem performSearch_first_page_witness:
  "currentPage (performSearch net_down ((dataTable server_config)\<lparr>currentPage := 4\<rparr>)) = 1 \<and>
   currentPage (performSearch net_down ((dataTable client_config)\<lparr>currentPage := 4\<rparr>)) = 1"
  using performSearch_first_page [of net_down "(dataTable server_config)\<lparr>currentPage := 4\<rparr>"]
    performSearch_first_page [of net_down "(dataTable client_config)\<lparr>currentPage := 4\<rparr>"]
  by simp

subsection \<open>Filtering\<close>

lemma starts_with_iff: "starts_with s t \<longleftrightarrow> (\<exists>q. s = t @ q)"
  by (induction s t rule: starts_with.induct) auto

lemma includes_str_iff: "includes_str s t \<longleftrightarrow> (\<exists>p q. s = p @ t @ q)"
proof (induction s)
  case Nil
  then show ?case by simp
next
  case (Cons x xs)
  show ?case
  proof
    assume "includes_str (x # xs) t"
    then consider "starts_with (x # xs) t" | "includes_str xs t" by auto
    then show "\<exists>p q. x # xs = p @ t @ q"
    proof cases
      case 1
      then obtain q where "x # xs = t @ q" using starts_with_iff by blast
      then have "x # xs = [] @ t @ q" by simp
      then show ?thesis by blast
    next
      case 2
      then obtain p q where "xs = p @ t @ q" using Cons.IH by blast
      then have "x # xs = (x # p) @ t @ q" by simp
      then show ?thesis by blast
    qed
  next
    assume "\<exists>p q. x # xs = p @ t @ q"
    then obtain p q where pq: "x # xs = p @ t @ q" by blast
    show "includes_str (x # xs) t"
    proof (cases p)
      case Nil
      then have "starts_with (x # xs) t" using pq starts_with_iff by auto
      then show ?thesis by simp
    next
      case (Cons y ys)
      then have "xs = ys @ t @ q" using pq by simp
      then have "includes_str xs t" using Cons.IH by blast
      then show ?thesis by simp
    qed
  qed
qed

lemma foldl_filters:
  "foldl (\<lambda>acc (key, value).
             if truthy value then filter (filter_matches key value) acc else acc) xs fs =
   filter (\<lambda>item. list_all (\<lambda>(key, value). truthy value \<longrightarrow> filter_matches key value item) fs) xs"
proof (induction fs arbitrary: xs)
  case Nil
  then show ?case by simp
next
  case (Cons f fs)
  obtain k v where f: "f = (k, v)" by (cases f)
  show ?case
    by (simp add: f Cons.IH conj_commute)
qed

lemma applyFilters_filteredData:
  "filteredData (applyFilters t) =
   filter (\<lambda>item.
       (search t \<noteq> [] \<longrightarrow> search_matches (toLowerCase (search t)) item) \<and>
       list_all (\<lambda>(key, value). truthy value \<longrightarrow> filter_matches key value item) (filters t))
     (data t)"
  by (simp add: applyFilters_def Let_def foldl_filters conj_commute)

text \<open>
  C5. \<open>applyFilters\<close> sets the filtered view to the records of the held set that contain
  the search term, without regard to case, in the text of one of their values (every
  record when the term is empty) and whose field, for each filter with a truthy value,
  contains the text of that value without regard to case; \<open>totalRecords\<close> is their number
  and the held set is not changed. With an empty search term and no filter that has a
  truthy value, every record is kept. Containing means occurring as a contiguous run of
  characters.
\<close>

theorem applyFilters_search_and_filters:
  "filteredData (applyFilters t) =
     filter (\<lambda>item.
         (search t \<noteq> [] \<longrightarrow>
            (\<exists>value \<in> set (Object_values item). ci_includes (String_js value) (search t))) \<and>
         (\<forall>(key, value) \<in> set (filters t).
            truthy value \<longrightarrow> ci_includes (String_js (get_prop item key)) (String_js value)))
       (data t) \<and>
   totalRecords (applyFilters t) = int (length (filteredData (applyFilters t))) \<and>
   data (applyFilters t) = data t \<and>
   (search t = [] \<and> (\<forall>(key, value) \<in> set (filters t). \<not> truthy value) \<longrightarrow>
      filteredData (applyFilters t) = data t) \<and>
   (ci_includes hay needle \<longleftrightarrow> (\<exists>p q. toLowerCase hay = p @ toLowerCase needle @ q))"
proof (intro conjI)
  have same: "\<And>item.
      ((search t \<noteq> [] \<longrightarrow> search_matches (toLowerCase (search t)) item) \<and>
       list_all (\<lambda>(key, value). truthy value \<longrightarrow> filter_matches key value item) (filters t)) =
      ((search t \<noteq> [] \<longrightarrow>
          (\<exists>value \<in> set (Object_values item). ci_includes (String_js value) (search t))) \<and>
       (\<forall>(key, value) \<in> set (filters t).
          truthy value \<longrightarrow> ci_includes (String_js (get_prop item key)) (String_js value)))"
    by (simp add: search_matches_def filter_matches_def ci_includes_def list_ex_iff
        list_all_iff)
  show main: "filteredData (applyFilters t) =
     filter (\<lambda>item.
         (search t \<noteq> [] \<longrightarrow>
            (\<exists>value \<in> set (Object_values item). ci_includes (String_js value) (search t))) \<and>
         (\<forall>(key, value) \<in> set (filters t).
            truthy value \<longrightarrow> ci_includes (String_js (get_prop item key)) (String_js value)))
       (data t)"
    by (simp only: applyFilters_filteredData same)
  show "totalRecords (applyFilters t) = int (length (filteredData (applyFilters t)))"
    by (simp add: applyFilters_def Let_def)
  show "data (applyFilters t) = data t"
    by (simp add: applyFilters_def Let_def)
  show "search t = [] \<and> (\<forall>(key, value) \<in> set (filters t). \<not> truthy value) \<longrightarrow>
      filteredData (applyFilters t) = data t"
  proof
    assume a: "search t = [] \<and> (\<forall>(key, value) \<in> set (filters t). \<not> truthy value)"
    then have "\<And>item. (\<forall>(key, value) \<in> set (filters t).
            truthy value \<longrightarrow> ci_includes (String_js (get_prop item key)) (String_js value))"
      by auto
    with a main show "filteredData (applyFilters t) = data t" by simp
  qed
  show "ci_includes hay needle \<longleftrightarrow> (\<exists>p q. toLowerCase hay = p @ toLowerCase needle @ q)"
    by (simp add: ci_includes_def includes_str_iff)
qed

theorem applyFilters_search_and_filters_witness:
  "filteredData (applyFilters table_cars) = [row_toyota] \<and>
   totalRecords (applyFilters table_cars) = 1 \<and>
   data (applyFilters table_cars) = [row_toyota, row_honda, row_hyundai] \<and>
   search table_plain = [] \<and> filters table_plain = [] \<and>
   filteredData (applyFilters table_plain) = [row_toyota, row_honda, row_hyundai] \<and>
   ci_includes ''Toyota'' ''YOT''"
proof -
  have 1: "filteredData (applyFilters table_cars) = [row_toyota]"
    by code_simp
  have 2: "search table_plain = []" "filters table_plain = []"
    "data table_plain = [row_toyota, row_honda, row_hyundai]"
    "data table_cars = [row_toyota, row_honda, row_hyundai]"
    by (simp_all add: table_plain_def table_cars_def dataTable_def)
  have 3: "toLowerCase ''Toyota'' = ''to'' @ toLowerCase ''YOT'' @ ''a''"
    by code_simp
  note cars = applyFilters_search_and_filters [of table_cars "''Toyota''" "''YOT''"]
  note plain = applyFilters_search_and_filters [of table_plain "''Toyota''" "''YOT''"]
  have 4: "totalRecords (applyFilters table_cars) = 1"
    using cars [THEN conjunct2, THEN conjunct1] 1 by simp
  have 5: "data (applyFilters table_cars) = [row_toyota, row_honda, row_hyundai]"
    using cars [THEN conjunct2, THEN conjunct2, THEN conjunct1] 2 by simp
  have 6: "filteredData (applyFilters table_plain) = [row_toyota, row_honda, row_hyundai]"
    using plain [THEN conjunct2, THEN conjunct2, THEN conjunct2, THEN conjunct1] 2 by simp
  have 7: "ci_includes ''Toyota'' ''YOT''"
    using cars [THEN conjunct2, THEN conjunct2, THEN conjunct2, THEN conjunct2] 3 by blast
  from 1 2 4 5 6 7 show ?thesis by simp
qed

subsection \<open>Loading\<close>

lemma queryParams_loading:
  "queryParams (t\<lparr>loading := l, error := e\<rparr>) params = queryParams t params"
  by (simp add: queryParams_def)

lemma loadData_rejected:
  assumes "net (apiUrl (config t), queryParams t params) = FetchRejected \<or>
    net (apiUrl (config t), queryParams t params) = JsonRejected \<or>
    net (apiUrl (config t), queryParams t params) = Decoded RNull"
  shows "loadData net params t = Intact (t\<lparr>loading := False, error := Some ''Failed to load data''\<rparr>)"
  using assms by (auto simp add: loadData_def load_failed_def queryParams_loading)

lemma loadData_server:
  assumes "net (apiUrl (config t), queryParams t params) = Decoded result"
    and "result \<noteq> RNull" and "serverSide (config t)"
  shows "loadData net params t =
    Intact (calculatePagination
      (t\<lparr>error := None,
         data := (case result_data result of None \<Rightarrow> [] | Some rows \<Rightarrow> rows),
         totalRecords := (case result_total result of None \<Rightarrow> 0 | Some n \<Rightarrow> n),
         filteredData := (case result_data result of None \<Rightarrow> [] | Some rows \<Rightarrow> rows),
         loading := False\<rparr>))"
  using assms by (simp add: loadData_def queryParams_loading calculatePagination_def)

lemma loadData_client:
  assumes "net (apiUrl (config t), queryParams t params) = Decoded result"
    and "result \<noteq> RNull" and "\<not> serverSide (config t)"
    and "client_value result = Rows rows"
  shows "loadData net params t =
    Intact (calculatePagination (applyFilters (t\<lparr>error := None, data := rows, loading := False\<rparr>)))"
  using assms
  by (simp add: loadData_def queryParams_loading calculatePagination_def applyFilters_def
      Let_def)

lemma loadData_error_keeps:
  assumes "error (state_of (loadData net params t)) \<noteq> None"
  shows "filteredData (state_of (loadData net params t)) = filteredData t"
    and "totalRecords (state_of (loadData net params t)) = totalRecords t"
    and "totalPages (state_of (loadData net params t)) = totalPages t"
  using assms
  by (auto simp add: loadData_def load_failed_def calculatePagination_def applyFilters_def
        Let_def
      split: fetched.splits held.splits if_splits)

text \<open>
  C2, as amended. When the fetch is rejected, the body cannot be decoded, or the decoded
  body is \<open>null\<close>, \<open>loadData(params)\<close> sets the error and leaves \<open>data\<close>, \<open>filteredData\<close>,
  \<open>totalRecords\<close> and \<open>totalPages\<close> as they were. When a decoded body gives its rows (in
  server-side mode every body but \<open>null\<close>; in client-side mode a body whose value of
  \<open>result.data || result || []\<close> is an array of rows), the error stays clear, \<open>data\<close> is
  replaced by those rows, \<open>filteredData\<close> and \<open>totalRecords\<close> follow (the reported total or 0 in
  server-side mode, the result of \<open>applyFilters\<close> in client-side mode) and \<open>totalPages\<close> is
  recomputed from them. In every case \<open>loading\<close> is false at the end, and whenever the
  error is set \<open>filteredData\<close>, \<open>totalRecords\<close> and \<open>totalPages\<close> are as they were.
\<close>

theorem loadData_failure_and_success:
  "(net (apiUrl (config t), queryParams t params) \<in> {FetchRejected, JsonRejected, Decoded RNull} \<longrightarrow>
      (\<exists>t'. loadData net params t = Intact t') \<and>
      error (state_of (loadData net params t)) = Some ''Failed to load data'' \<and>
      data (state_of (loadData net params t)) = data t \<and>
      filteredData (state_of (loadData net params t)) = filteredData t \<and>
      totalRecords (state_of (loadData net params t)) = totalRecords t \<and>
      totalPages (state_of (loadData net params t)) = totalPages t) \<and>
   (net (apiUrl (config t), queryParams t params) = Decoded result \<and> result \<noteq> RNull \<and>
    serverSide (config t) \<longrightarrow>
      (\<exists>t'. loadData net params t = Intact t') \<and>
      error (state_of (loadData net params t)) = None \<and>
      data (state_of (loadData net params t)) =
        (case result_data result of None \<Rightarrow> [] | Some rows \<Rightarrow> rows) \<and>
      filteredData (state_of (loadData net params t)) =
        data (state_of (loadData net params t)) \<and>
      totalRecords (state_of (loadData net params t)) =
        (case result_total result of None \<Rightarrow> 0 | Some n \<Rightarrow> n) \<and>
      paginated (state_of (loadData net params t))) \<and>
   (net (apiUrl (config t), queryParams t params) = Decoded result \<and> result \<noteq> RNull \<and>
    \<not> serverSide (config t) \<and> client_value result = Rows rows \<longrightarrow>
      (\<exists>t'. loadData net params t = Intact t') \<and>
      error (state_of (loadData net params t)) = None \<and>
      data (state_of (loadData net params t)) = rows \<and>
      filteredData (state_of (loadData net params t)) =
        filteredData (applyFilters (t\<lparr>data := rows\<rparr>)) \<and>
      totalRecords (state_of (loadData net params t)) =
        int (length (filteredData (state_of (loadData net params t)))) \<and>
      paginated (state_of (loadData net params t))) \<and>
   loading (state_of (loadData net params t)) = False \<and>
   (error (state_of (loadData net params t)) \<noteq> None \<longrightarrow>
      filteredData (state_of (loadData net params t)) = filteredData t \<and>
      totalRecords (state_of (loadData net params t)) = totalRecords t \<and>
      totalPages (state_of (loadData net params t)) = totalPages t)"
proof (intro conjI impI)
  assume "net (apiUrl (config t), queryParams t params) \<in>
    {FetchRejected, JsonRejected, Decoded RNull}"
  then have eq: "loadData net params t =
      Intact (t\<lparr>loading := False, error := Some ''Failed to load data''\<rparr>)"
    by (intro loadData_rejected) auto
  show "\<exists>t'. loadData net params t = Intact t'" using eq by blast
  show "error (state_of (loadData net params t)) = Some ''Failed to load data''"
    by (simp add: eq)
  show "data (state_of (loadData net params t)) = data t" by (simp add: eq)
  show "filteredData (state_of (loadData net params t)) = filteredData t" by (simp add: eq)
  show "totalRecords (state_of (loadData net params t)) = totalRecords t" by (simp add: eq)
  show "totalPages (state_of (loadData net params t)) = totalPages t" by (simp add: eq)
next
  assume a: "net (apiUrl (config t), queryParams t params) = Decoded result \<and>
    result \<noteq> RNull \<and> serverSide (config t)"
  note eq = loadData_server [of net t params result]
  show "\<exists>t'. loadData net params t = Intact t'" using a eq by blast
  show "error (state_of (loadData net params t)) = None"
    using a by (simp add: eq calculatePagination_def)
  show "data (state_of (loadData net params t)) =
      (case result_data result of None \<Rightarrow> [] | Some rows \<Rightarrow> rows)"
    using a by (simp add: eq calculatePagination_def)
  show "filteredData (state_of (loadData net params t)) =
      data (state_of (loadData net params t))"
    using a by (simp add: eq calculatePagination_def)
  show "totalRecords (state_of (loadData net params t)) =
      (case result_total result of None \<Rightarrow> 0 | Some n \<Rightarrow> n)"
    using a by (simp add: eq calculatePagination_def)
  show "paginated (state_of (loadData net params t))"
    using a by (simp add: eq paginated_steps)
next
  assume a: "net (apiUrl (config t), queryParams t params) = Decoded result \<and>
    result \<noteq> RNull \<and> \<not> serverSide (config t) \<and> client_value result = Rows rows"
  note eq = loadData_client [of net t params result rows]
  show "\<exists>t'. loadData net params t = Intact t'" using a eq by blast
  show "error (state_of (loadData net params t)) = None"
    using a by (simp add: eq calculatePagination_def applyFilters_def Let_def)
  show "data (state_of (loadData net params t)) = rows"
    using a by (simp add: eq calculatePagination_def applyFilters_def Let_def)
  show "filteredData (state_of (loadData net params t)) =
      filteredData (applyFilters (t\<lparr>data := rows\<rparr>))"
    using a by (simp add: eq calculatePagination_def applyFilters_def Let_def)
  show "totalRecords (state_of (loadData net params t)) =
      int (length (filteredData (state_of (loadData net params t))))"
    using a by (simp add: eq calculatePagination_def applyFilters_def Let_def)
  show "paginated (state_of (loadData net params t))"
    using a by (simp add: eq paginated_steps)
next
  show "loading (state_of (loadData net params t)) = False"
    by (rule loadData_keeps)
next
  assume e: "error (state_of (loadData net params t)) \<noteq> None"
  show "filteredData (state_of (loadData net params t)) = filteredData t"
    using e by (rule loadData_error_keeps)
  show "totalRecords (state_of (loadData net params t)) = totalRecords t"
    using e by (rule loadData_error_keeps)
  show "totalPages (state_of (loadData net params t)) = totalPages t"
    using e by (rule loadData_error_keeps)
qed

theorem loadData_failure_and_success_witness:
  "net_down (apiUrl (config table_held), queryParams table_held []) = FetchRejected \<and>
   error (state_of (loadData net_down [] table_held)) = Some ''Failed to load data'' \<and>
   data (state_of (loadData net_down [] table_held)) = [row_toyota, row_honda] \<and>
   filteredData (state_of (loadData net_down [] table_held)) = [row_honda] \<and>
   totalRecords (state_of (loadData net_down [] table_held)) = 1 \<and>
   loading (state_of (loadData net_down [] table_held)) = False \<and>
   net_array (apiUrl (config table_held), queryParams table_held []) =
     Decoded (RArray [row_hyundai]) \<and>
   client_value (RArray [row_hyundai]) = Rows [row_hyundai] \<and>
   error (state_of (loadData net_array [] table_held)) = None \<and>
   data (state_of (loadData net_array [] table_held)) = [row_hyundai] \<and>
   paginated (state_of (loadData net_array [] table_held)) \<and>
   serverSide (config (dataTable server_config)) \<and>
   data (state_of (loadData net_object [] (dataTable server_config))) = [row_hyundai] \<and>
   totalRecords (state_of (loadData net_object [] (dataTable server_config))) = 60 \<and>
   error (state_of (loadData net_error_body [] table_held)) \<noteq> None \<and>
   filteredData (state_of (loadData net_error_body [] table_held)) = [row_honda]"
proof -
  have h: "net_down (apiUrl (config table_held), queryParams table_held []) = FetchRejected"
    "net_array (apiUrl (config table_held), queryParams table_held []) =
       Decoded (RArray [row_hyundai])"
    "net_object (apiUrl (config (dataTable server_config)),
         queryParams (dataTable server_config) []) =
       Decoded (RObject (Some [row_hyundai]) (Some 60))"
    "\<not> serverSide (config table_held)" "serverSide (config (dataTable server_config))"
    "data table_held = [row_toyota, row_honda]" "filteredData table_held = [row_honda]"
    "totalRecords table_held = 1"
    "client_value (RArray [row_hyundai]) = Rows [row_hyundai]"
    by (simp_all add: net_down_def net_array_def net_object_def table_held_def dataTable_def
        client_config_def server_config_def client_value_def)
  have e: "error (state_of (loadData net_error_body [] table_held)) \<noteq> None"
    by (simp add: loadData_def load_failed_def net_error_body_def table_held_def
        dataTable_def client_config_def client_value_def)
  note down = loadData_failure_and_success
    [where net = net_down and t = table_held and params = "[]"
       and result = "RArray [row_hyundai]" and rows = "[row_hyundai]"]
  note up = loadData_failure_and_success
    [where net = net_array and t = table_held and params = "[]"
       and result = "RArray [row_hyundai]" and rows = "[row_hyundai]"]
  note srv = loadData_failure_and_success
    [where net = net_object and t = "dataTable server_config" and params = "[]"
       and result = "RObject (Some [row_hyundai]) (Some 60)" and rows = "[row_hyundai]"]
  note bad = loadData_failure_and_success
    [where net = net_error_body and t = table_held and params = "[]"
       and result = "RArray [row_hyundai]" and rows = "[row_hyundai]"]
  have 1: "error (state_of (loadData net_down [] table_held)) = Some ''Failed to load data'' \<and>
      data (state_of (loadData net_down [] table_held)) = data table_held \<and>
      filteredData (state_of (loadData net_down [] table_held)) = filteredData table_held \<and>
      totalRecords (state_of (loadData net_down [] table_held)) = totalRecords table_held"
    using down [THEN conjunct1] h(1) by simp
  have 2: "loading (state_of (loadData net_down [] table_held)) = False"
    using down by blast
  have 3: "error (state_of (loadData net_array [] table_held)) = None \<and>
      data (state_of (loadData net_array [] table_held)) = [row_hyundai] \<and>
      paginated (state_of (loadData net_array [] table_held))"
    using up [THEN conjunct2, THEN conjunct2, THEN conjunct1] h(2) h(4) h(9) by simp
  have 4: "data (state_of (loadData net_object [] (dataTable server_config))) = [row_hyundai] \<and>
      totalRecords (state_of (loadData net_object [] (dataTable server_config))) = 60"
    using srv [THEN conjunct2, THEN conjunct1] h(3) h(5) by simp
  have 5: "filteredData (state_of (loadData net_error_body [] table_held)) =
      filteredData table_held"
    using bad e by blast
  from h e 1 2 3 4 5 show ?thesis by simp
qed

text \<open>
  The claim as stated fails: the body \<open>null\<close> is decoded without a failure, and yet the
  error is set, nothing is replaced and the number of pages is not recomputed (the
  constructor's one page for no records stays). In client-side mode the JSON of an error,
  an object without \<open>data\<close>, is decoded as well; it is assigned to \<open>this.data\<close>, the error is
  set and the number of pages is not recomputed either.
\<close>

theorem decoded_body_is_not_success:
  "net_null (apiUrl (config (dataTable server_config)),
       queryParams (dataTable server_config) []) = Decoded RNull \<and>
   error (state_of (loadData net_null [] (dataTable server_config))) =
     Some ''Failed to load data'' \<and>
   totalPages (state_of (loadData net_null [] (dataTable server_config))) = Fin 1 \<and>
   \<not> paginated (state_of (loadData net_null [] (dataTable server_config))) \<and>
   net_error_body (apiUrl (config (dataTable client_config)),
       queryParams (dataTable client_config) []) = Decoded (RObject None None) \<and>
   loadData net_error_body [] (dataTable client_config) =
     Clobbered (RObject None None)
       ((dataTable client_config)\<lparr>error := Some ''Failed to load data''\<rparr>) \<and>
   \<not> paginated (state_of (loadData net_error_body [] (dataTable client_config)))"
  by (simp add: net_null_def net_error_body_def loadData_def load_failed_def dataTable_def
      client_config_def server_config_def client_value_def paginated_def divide_js_def)

subsection \<open>Sorting\<close>

text \<open>The text of a number reads back as the number.\<close>

lemma String_reads_back:
  "signed_decimal (String_js (JNum (Fin 2))) = Some (Fin 2, [])"
  "signed_decimal (String_js (JNum (Fin 10))) = Some (Fin 10, [])"
  "signed_decimal (String_js (JNum (Fin (19 / 2)))) = Some (Fin (19 / 2), [])"
  "signed_decimal (String_js (JNum PosInf)) = Some (PosInf, [])"
  "signed_decimal (String_js (JNum NaN)) = None"
  by code_simp+

lemma compare_rows_numbers:
  assumes "get_prop a f = JNum (Fin x)" and "get_prop b f = JNum (Fin y)"
  shows "compare_rows f ''asc'' a b = (if y < x then 1 else - 1)"
    and "compare_rows f ''desc'' a b = (if x < y then 1 else - 1)"
  using assms by (simp_all add: compare_rows_def isNaN_def parseFloat_def js_gt_def)

lemma has_num_get: "has_num f r \<Longrightarrow> get_prop r f = JNum (Fin (num_of f r))"
  by (auto simp add: has_num_def num_of_def split: jsval.splits ext.splits)

lemma compare_rows_asc_neg:
  assumes "has_num f x" and "has_num f y"
  shows "compare_rows f ''asc'' x y < 0 \<longleftrightarrow> num_of f x \<le> num_of f y"
    and "0 < compare_rows f ''asc'' x y \<longleftrightarrow> num_of f y < num_of f x"
    and "compare_rows f ''asc'' x y \<noteq> 0"
  using compare_rows_numbers(1) [OF has_num_get [OF assms(1)] has_num_get [OF assms(2)]]
  by auto

text \<open>The insertion sort meets the contract of an engine.\<close>

lemma set_insert_by: "set (insert_by cmp x ys) = insert x (set ys)"
  by (induction ys) auto

lemma mset_insert_by: "mset (insert_by cmp x ys) = add_mset x (mset ys)"
  by (induction ys) auto

lemma mset_insertion_sort: "mset (insertion_sort cmp xs) = mset xs"
  by (induction xs) (simp_all add: insertion_sort_def mset_insert_by)

lemma set_insertion_sort: "set (insertion_sort cmp xs) = set xs"
  using mset_insertion_sort [of cmp xs] by (rule mset_eq_setD)

lemma sorted_insert_by:
  assumes anti: "\<forall>a \<in> S. \<forall>b \<in> S. a \<noteq> b \<longrightarrow> cmp a b \<noteq> 0 \<and> (cmp a b < 0) = (0 < cmp b a)"
    and trans: "\<forall>a \<in> S. \<forall>b \<in> S. \<forall>c \<in> S. cmp a b < 0 \<and> cmp b c < 0 \<longrightarrow> cmp a c < 0"
  shows "x \<in> S \<Longrightarrow> set ys \<subseteq> S \<Longrightarrow> x \<notin> set ys \<Longrightarrow> sorted_wrt (\<lambda>a b. cmp a b < 0) ys \<Longrightarrow>
    sorted_wrt (\<lambda>a b. cmp a b < 0) (insert_by cmp x ys)"
proof (induction ys)
  case Nil
  show ?case by simp
next
  case (Cons y ys)
  have x: "x \<in> S" by (rule Cons.prems(1))
  have y: "y \<in> S" and ys: "set ys \<subseteq> S" using Cons.prems(2) by simp_all
  have ne: "x \<noteq> y" and nin: "x \<notin> set ys" using Cons.prems(3) by simp_all
  have above: "\<forall>z \<in> set ys. cmp y z < 0" and s: "sorted_wrt (\<lambda>a b. cmp a b < 0) ys"
    using Cons.prems(4) by simp_all
  have IH: "sorted_wrt (\<lambda>a b. cmp a b < 0) (insert_by cmp x ys)"
    using x ys nin s by (rule Cons.IH)
  show ?case
  proof (cases "0 < cmp x y")
    case True
    have "\<forall>b \<in> S. y \<noteq> b \<longrightarrow> cmp y b \<noteq> 0 \<and> (cmp y b < 0) = (0 < cmp b y)"
      using anti y by (rule bspec)
    then have "y \<noteq> x \<longrightarrow> cmp y x \<noteq> 0 \<and> (cmp y x < 0) = (0 < cmp x y)"
      using x by (rule bspec)
    then have "cmp y x < 0" using ne True by simp
    then have "\<forall>z \<in> set (insert_by cmp x ys). cmp y z < 0"
      using above by (simp add: set_insert_by)
    then have "sorted_wrt (\<lambda>a b. cmp a b < 0) (y # insert_by cmp x ys)"
      using IH by simp
    then show ?thesis using True by simp
  next
    case False
    have "\<forall>b \<in> S. x \<noteq> b \<longrightarrow> cmp x b \<noteq> 0 \<and> (cmp x b < 0) = (0 < cmp b x)"
      using anti x by (rule bspec)
    then have "x \<noteq> y \<longrightarrow> cmp x y \<noteq> 0 \<and> (cmp x y < 0) = (0 < cmp y x)"
      using y by (rule bspec)
    then have "cmp x y \<noteq> 0" using ne by simp
    then have lt: "cmp x y < 0" using False by simp
    have "\<forall>z \<in> set ys. cmp x z < 0"
    proof
      fix z assume z: "z \<in> set ys"
      have "cmp y z < 0" using above z by (rule bspec)
      moreover have "z \<in> S" using ys z by (rule subsetD)
      ultimately show "cmp x z < 0" using lt trans x y by blast
    qed
    then have "sorted_wrt (\<lambda>a b. cmp a b < 0) (x # y # ys)"
      using lt above s by simp
    then show ?thesis using False by simp
  qed
qed

lemma sorted_insertion_sort:
  assumes "orders cmp xs"
  shows "sorted_wrt (\<lambda>a b. cmp a b < 0) (insertion_sort cmp xs)"
proof -
  have anti: "\<forall>a \<in> set xs. \<forall>b \<in> set xs.
      a \<noteq> b \<longrightarrow> cmp a b \<noteq> 0 \<and> (cmp a b < 0) = (0 < cmp b a)"
    and trans: "\<forall>a \<in> set xs. \<forall>b \<in> set xs. \<forall>c \<in> set xs.
      cmp a b < 0 \<and> cmp b c < 0 \<longrightarrow> cmp a c < 0"
    and d: "distinct xs"
    using assms unfolding orders_def by blast+
  have "set ys \<subseteq> set xs \<Longrightarrow> distinct ys \<Longrightarrow>
      sorted_wrt (\<lambda>a b. cmp a b < 0) (insertion_sort cmp ys)" for ys
  proof (induction ys)
    case Nil
    show ?case by (simp add: insertion_sort_def)
  next
    case (Cons y ys)
    have y: "y \<in> set xs" and ys: "set ys \<subseteq> set xs" using Cons.prems(1) by simp_all
    have nin: "y \<notin> set ys" and dys: "distinct ys" using Cons.prems(2) by simp_all
    have s: "sorted_wrt (\<lambda>a b. cmp a b < 0) (insertion_sort cmp ys)"
      using ys dys by (rule Cons.IH)
    have sub: "set (insertion_sort cmp ys) \<subseteq> set xs"
      using ys by (simp add: set_insertion_sort)
    have nin': "y \<notin> set (insertion_sort cmp ys)"
      using nin by (simp add: set_insertion_sort)
    have "sorted_wrt (\<lambda>a b. cmp a b < 0) (insert_by cmp y (insertion_sort cmp ys))"
      using anti trans y sub nin' s by (rule sorted_insert_by)
    then show ?case by (simp add: insertion_sort_def)
  qed
  then show ?thesis using d by simp
qed

lemma insertion_sort_contract: "sort_contract insertion_sort"
  by (simp add: sort_contract_def mset_insertion_sort sorted_insertion_sort)

text \<open>What the contract gives for the comparison function of \<open>sort\<close>.\<close>

lemma orders_compare_rows:
  assumes h: "list_all (has_num f) xs" and d: "distinct (map (num_of f) xs)"
  shows "orders (compare_rows f ''asc'') xs"
proof -
  have inj: "a \<in> set xs \<Longrightarrow> b \<in> set xs \<Longrightarrow> a \<noteq> b \<Longrightarrow> num_of f a \<noteq> num_of f b" for a b
    using d by (meson distinct_map inj_onD)
  have n: "a \<in> set xs \<Longrightarrow> has_num f a" for a
    using h by (simp add: list_all_iff)
  show ?thesis
    unfolding orders_def
  proof (intro conjI ballI impI)
    show "distinct xs" using d by (simp add: distinct_map)
  next
    fix a b assume a: "a \<in> set xs" and b: "b \<in> set xs"
    show "compare_rows f ''asc'' a b \<noteq> 0"
      by (rule compare_rows_asc_neg(3) [OF n [OF a] n [OF b]])
  next
    fix a b assume a: "a \<in> set xs" and b: "b \<in> set xs" and ne: "a \<noteq> b"
    have "num_of f a \<noteq> num_of f b" using a b ne by (rule inj)
    then show "(compare_rows f ''asc'' a b < 0) = (0 < compare_rows f ''asc'' b a)"
      using compare_rows_asc_neg(1) [OF n [OF a] n [OF b]]
        compare_rows_asc_neg(2) [OF n [OF b] n [OF a]]
      by auto
  next
    fix a b c assume a: "a \<in> set xs" and b: "b \<in> set xs" and c: "c \<in> set xs"
      and lt: "compare_rows f ''asc'' a b < 0 \<and> compare_rows f ''asc'' b c < 0"
    have "num_of f a \<le> num_of f b"
      using lt compare_rows_asc_neg(1) [OF n [OF a] n [OF b]] by simp
    moreover have "num_of f b \<le> num_of f c"
      using lt compare_rows_asc_neg(1) [OF n [OF b] n [OF c]] by simp
    ultimately show "compare_rows f ''asc'' a c < 0"
      using compare_rows_asc_neg(1) [OF n [OF a] n [OF c]] by simp
  qed
qed

lemma engine_sorts_numbers:
  assumes c: "sort_contract engine"
    and h: "list_all (has_num f) xs" and d: "distinct (map (num_of f) xs)"
  shows "sorted (map (num_of f) (engine (compare_rows f ''asc'') xs))"
    and "mset (engine (compare_rows f ''asc'') xs) = mset xs"
proof -
  show m: "mset (engine (compare_rows f ''asc'') xs) = mset xs"
    using c by (simp add: sort_contract_def)
  have s: "set (engine (compare_rows f ''asc'') xs) = set xs"
    using m by (rule mset_eq_setD)
  have "sorted_wrt (\<lambda>a b. compare_rows f ''asc'' a b < 0) (engine (compare_rows f ''asc'') xs)"
    using c orders_compare_rows [OF h d] by (simp add: sort_contract_def)
  then have "sorted_wrt (\<lambda>a b. num_of f a \<le> num_of f b) (engine (compare_rows f ''asc'') xs)"
  proof (rule sorted_wrt_mono_rel [rotated])
    fix a b assume "a \<in> set (engine (compare_rows f ''asc'') xs)"
      and "b \<in> set (engine (compare_rows f ''asc'') xs)"
      and lt: "compare_rows f ''asc'' a b < 0"
    then have "has_num f a" "has_num f b" using h s by (simp_all add: list_all_iff)
    then show "num_of f a \<le> num_of f b" using lt compare_rows_asc_neg(1) by blast
  qed
  then show "sorted (map (num_of f) (engine (compare_rows f ''asc'') xs))"
    by (simp add: sorted_map)
qed

lemma mset_pair: "mset ys = {#a, b#} \<Longrightarrow> ys = [a, b] \<or> ys = [b, a]"
proof -
  assume m: "mset ys = {#a, b#}"
  have "size (mset ys) = 2" by (simp add: m)
  then have "length ys = Suc (Suc 0)" by simp
  then obtain u v where ys: "ys = [u, v]"
    by (auto simp add: length_Suc_conv)
  with m show ?thesis by (auto simp add: add_eq_conv_ex)
qed

lemma engine_sorts_pair:
  assumes c: "sort_contract engine" and ne: "a \<noteq> b"
    and ab: "cmp a b < 0" and ba: "0 < cmp b a"
  shows "engine cmp [a, b] = [a, b]" and "engine cmp [b, a] = [a, b]"
proof -
  have o: "orders cmp [a, b]" "orders cmp [b, a]"
    using ne ab ba by (auto simp add: orders_def)
  have "mset (engine cmp [a, b]) = {#a, b#}" "mset (engine cmp [b, a]) = {#a, b#}"
    using c by (simp_all add: sort_contract_def)
  then have 1: "engine cmp [a, b] = [a, b] \<or> engine cmp [a, b] = [b, a]"
    and 2: "engine cmp [b, a] = [a, b] \<or> engine cmp [b, a] = [b, a]"
    by (simp_all add: mset_pair)
  have "sorted_wrt (\<lambda>a b. cmp a b < 0) (engine cmp [a, b])"
    "sorted_wrt (\<lambda>a b. cmp a b < 0) (engine cmp [b, a])"
    using c o by (simp_all add: sort_contract_def)
  then show "engine cmp [a, b] = [a, b]" and "engine cmp [b, a] = [a, b]"
    using 1 2 ba by auto
qed

lemma sort_tbl_client:
  assumes "\<not> serverSide (config t)" and "sortField t \<noteq> Some f"
  shows "filteredData (sort_tbl engine net f t) =
    engine (compare_rows f ''asc'') (filteredData t)"
  using assms by (simp add: sort_tbl_def)

lemma compare_examples:
  "compare_rows ''a'' ''asc'' [(''a'', JNum (Fin 2))] [(''a'', JNum (Fin 10))] = - 1"
  "compare_rows ''a'' ''asc'' [(''a'', JNum (Fin 10))] [(''a'', JNum (Fin 2))] = 1"
  "compare_rows ''a'' ''asc'' [(''a'', JStr ''2'')] [(''a'', JStr ''10'')] = - 1"
  "compare_rows ''a'' ''asc'' [(''a'', JStr ''10'')] [(''a'', JStr ''2'')] = 1"
  "compare_rows ''a'' ''asc'' [(''a'', JStr ''9.5'')] [(''a'', JStr ''10.5'')] = - 1"
  "compare_rows ''a'' ''asc'' [(''a'', JStr ''10.5'')] [(''a'', JStr ''9.5'')] = 1"
  by code_simp+

lemma table_examples:
  "\<not> serverSide (config table_2_10)" "sortField table_2_10 \<noteq> Some ''a''"
  "filteredData table_2_10 = [[(''a'', JNum (Fin 2))], [(''a'', JNum (Fin 10))]]"
  "\<not> serverSide (config table_10_2)" "sortField table_10_2 \<noteq> Some ''a''"
  "filteredData table_10_2 = [[(''a'', JNum (Fin 10))], [(''a'', JNum (Fin 2))]]"
  "\<not> serverSide (config table_strings)" "sortField table_strings \<noteq> Some ''a''"
  "filteredData table_strings = [[(''a'', JStr ''10'')], [(''a'', JStr ''2'')]]"
  "\<not> serverSide (config table_decimals)" "sortField table_decimals \<noteq> Some ''a''"
  "filteredData table_decimals = [[(''a'', JStr ''10.5'')], [(''a'', JStr ''9.5'')]]"
  by (simp_all add: table_2_10_def table_10_2_def table_strings_def table_decimals_def
      dataTable_def client_config_def)

text \<open>
  C7. In client-side mode the comparison function of \<open>sort\<close> converts both values with
  \<open>parseFloat\<close> when neither is NaN as a number, and compares the values as they are
  otherwise; two finite numbers are compared by size. So, on every engine that meets the
  contract of \<open>Array.prototype.sort\<close>, a view whose sort field holds finite numbers, no two
  of them equal, comes out in ascending numeric order on the first call on a field, with
  the same records. The records \<open>{a: 2}\<close> and \<open>{a: 10}\<close> sorted by \<open>a\<close> come out as \<open>{a: 2}\<close>,
  \<open>{a: 10}\<close> from either order; the strings \<open>"10"\<close> and \<open>"2"\<close> come out as \<open>"2"\<close>, \<open>"10"\<close>,
  although \<open>"10"\<close> is before \<open>"2"\<close> as a string; and the strings \<open>"10.5"\<close> and \<open>"9.5"\<close> come
  out as \<open>"9.5"\<close>, \<open>"10.5"\<close>.
\<close>

theorem sort_compares_numerically:
  "(\<not> isNaN (get_prop a f) \<and> \<not> isNaN (get_prop b f) \<longrightarrow>
      compare_rows f ''asc'' a b =
        (if js_gt (parseFloat (get_prop a f)) (parseFloat (get_prop b f)) then 1 else - 1) \<and>
      compare_rows f ''desc'' a b =
        (if js_lt (parseFloat (get_prop a f)) (parseFloat (get_prop b f)) then 1 else - 1)) \<and>
   (isNaN (get_prop a f) \<or> isNaN (get_prop b f) \<longrightarrow>
      compare_rows f ''asc'' a b = (if js_gt (get_prop a f) (get_prop b f) then 1 else - 1) \<and>
      compare_rows f ''desc'' a b = (if js_lt (get_prop a f) (get_prop b f) then 1 else - 1)) \<and>
   (get_prop a f = JNum (Fin x) \<and> get_prop b f = JNum (Fin y) \<longrightarrow>
      compare_rows f ''asc'' a b = (if y < x then 1 else - 1) \<and>
      compare_rows f ''desc'' a b = (if x < y then 1 else - 1)) \<and>
   (sort_contract engine \<and> \<not> serverSide (config t) \<and> sortField t \<noteq> Some f \<and>
    list_all (has_num f) (filteredData t) \<and> distinct (map (num_of f) (filteredData t)) \<longrightarrow>
      sorted (map (num_of f) (filteredData (sort_tbl engine net f t))) \<and>
      mset (filteredData (sort_tbl engine net f t)) = mset (filteredData t)) \<and>
   (sort_contract engine \<longrightarrow>
      filteredData (sort_tbl engine net ''a'' table_2_10) =
        [[(''a'', JNum (Fin 2))], [(''a'', JNum (Fin 10))]] \<and>
      filteredData (sort_tbl engine net ''a'' table_10_2) =
        [[(''a'', JNum (Fin 2))], [(''a'', JNum (Fin 10))]] \<and>
      filteredData (sort_tbl engine net ''a'' table_strings) =
        [[(''a'', JStr ''2'')], [(''a'', JStr ''10'')]] \<and>
      filteredData (sort_tbl engine net ''a'' table_decimals) =
        [[(''a'', JStr ''9.5'')], [(''a'', JStr ''10.5'')]]) \<and>
   str_lt ''10'' ''2''"
proof (intro conjI impI)
  assume "\<not> isNaN (get_prop a f) \<and> \<not> isNaN (get_prop b f)"
  then show "compare_rows f ''asc'' a b =
      (if js_gt (parseFloat (get_prop a f)) (parseFloat (get_prop b f)) then 1 else - 1)"
    and "compare_rows f ''desc'' a b =
      (if js_lt (parseFloat (get_prop a f)) (parseFloat (get_prop b f)) then 1 else - 1)"
    by (simp_all add: compare_rows_def)
next
  assume "isNaN (get_prop a f) \<or> isNaN (get_prop b f)"
  then show "compare_rows f ''asc'' a b =
      (if js_gt (get_prop a f) (get_prop b f) then 1 else - 1)"
    and "compare_rows f ''desc'' a b =
      (if js_lt (get_prop a f) (get_prop b f) then 1 else - 1)"
    by (auto simp add: compare_rows_def)
next
  assume n: "get_prop a f = JNum (Fin x) \<and> get_prop b f = JNum (Fin y)"
  show "compare_rows f ''asc'' a b = (if y < x then 1 else - 1)"
    using n compare_rows_numbers(1) by blast
  show "compare_rows f ''desc'' a b = (if x < y then 1 else - 1)"
    using n compare_rows_numbers(2) by blast
next
  assume h: "sort_contract engine \<and> \<not> serverSide (config t) \<and> sortField t \<noteq> Some f \<and>
    list_all (has_num f) (filteredData t) \<and> distinct (map (num_of f) (filteredData t))"
  then have eq: "filteredData (sort_tbl engine net f t) =
      engine (compare_rows f ''asc'') (filteredData t)"
    by (simp add: sort_tbl_client)
  show "sorted (map (num_of f) (filteredData (sort_tbl engine net f t)))"
    unfolding eq using h engine_sorts_numbers(1) by blast
  show "mset (filteredData (sort_tbl engine net f t)) = mset (filteredData t)"
    unfolding eq using h engine_sorts_numbers(2) by blast
next
  assume c: "sort_contract engine"
  show "filteredData (sort_tbl engine net ''a'' table_2_10) =
      [[(''a'', JNum (Fin 2))], [(''a'', JNum (Fin 10))]]"
    unfolding sort_tbl_client [OF table_examples(1) table_examples(2)] table_examples(3)
    by (rule engine_sorts_pair(1) [OF c]) (simp_all add: compare_examples)
  show "filteredData (sort_tbl engine net ''a'' table_10_2) =
      [[(''a'', JNum (Fin 2))], [(''a'', JNum (Fin 10))]]"
    unfolding sort_tbl_client [OF table_examples(4) table_examples(5)] table_examples(6)
    by (rule engine_sorts_pair(2) [OF c]) (simp_all add: compare_examples)
  show "filteredData (sort_tbl engine net ''a'' table_strings) =
      [[(''a'', JStr ''2'')], [(''a'', JStr ''10'')]]"
    unfolding sort_tbl_client [OF table_examples(7) table_examples(8)] table_examples(9)
    by (rule engine_sorts_pair(2) [OF c]) (simp_all add: compare_examples)
  show "filteredData (sort_tbl engine net ''a'' table_decimals) =
      [[(''a'', JStr ''9.5'')], [(''a'', JStr ''10.5'')]]"
    unfolding sort_tbl_client [OF table_examples(10) table_examples(11)] table_examples(12)
    by (rule engine_sorts_pair(2) [OF c]) (simp_all add: compare_examples)
next
  show "str_lt ''10'' ''2''" by simp
qed

theorem sort_compares_numerically_witness:
  "sort_contract insertion_sort \<and>
   \<not> isNaN (get_prop [(''a'', JStr ''10.5'')] ''a'') \<and>
   \<not> isNaN (get_prop [(''a'', JStr ''9.5'')] ''a'') \<and>
   compare_rows ''a'' ''asc'' [(''a'', JStr ''10.5'')] [(''a'', JStr ''9.5'')] = 1 \<and>
   isNaN (get_prop [(''a'', JStr ''x'')] ''a'') \<and>
   compare_rows ''a'' ''asc'' [(''a'', JStr ''x'')] [(''a'', JStr ''9.5'')] = 1 \<and>
   get_prop [(''a'', JNum (Fin 10))] ''a'' = JNum (Fin 10) \<and>
   get_prop [(''a'', JNum (Fin 2))] ''a'' = JNum (Fin 2) \<and>
   compare_rows ''a'' ''asc'' [(''a'', JNum (Fin 10))] [(''a'', JNum (Fin 2))] = 1 \<and>
   \<not> serverSide (config table_10_2) \<and> sortField table_10_2 \<noteq> Some ''a'' \<and>
   list_all (has_num ''a'') (filteredData table_10_2) \<and>
   distinct (map (num_of ''a'') (filteredData table_10_2)) \<and>
   sorted (map (num_of ''a'') (filteredData (sort_tbl insertion_sort net_down ''a'' table_10_2))) \<and>
   filteredData (sort_tbl insertion_sort net_down ''a'' table_10_2) =
     [[(''a'', JNum (Fin 2))], [(''a'', JNum (Fin 10))]] \<and>
   filteredData (sort_tbl insertion_sort net_down ''a'' table_decimals) =
     [[(''a'', JStr ''9.5'')], [(''a'', JStr ''10.5'')]]"
proof -
  note dec = sort_compares_numerically
    [where a = "[(''a'', JStr ''10.5'')]" and b = "[(''a'', JStr ''9.5'')]" and f = "''a''"
       and engine = insertion_sort and t = table_10_2 and net = net_down
       and x = 10 and y = 2]
  note raw = sort_compares_numerically
    [where a = "[(''a'', JStr ''x'')]" and b = "[(''a'', JStr ''9.5'')]" and f = "''a''"
       and engine = insertion_sort and t = table_10_2 and net = net_down
       and x = 10 and y = 2]
  note num = sort_compares_numerically
    [where a = "[(''a'', JNum (Fin 10))]" and b = "[(''a'', JNum (Fin 2))]" and f = "''a''"
       and engine = insertion_sort and t = table_10_2 and net = net_down
       and x = 10 and y = 2]
  have c: "sort_contract insertion_sort" by (rule insertion_sort_contract)
  have n: "\<not> isNaN (get_prop [(''a'', JStr ''10.5'')] ''a'')"
    "\<not> isNaN (get_prop [(''a'', JStr ''9.5'')] ''a'')"
    "isNaN (get_prop [(''a'', JStr ''x'')] ''a'')"
    "js_gt (parseFloat (get_prop [(''a'', JStr ''10.5'')] ''a''))
       (parseFloat (get_prop [(''a'', JStr ''9.5'')] ''a''))"
    "js_gt (get_prop [(''a'', JStr ''x'')] ''a'') (get_prop [(''a'', JStr ''9.5'')] ''a'')"
    by code_simp+
  have g: "get_prop [(''a'', JNum (Fin 10))] ''a'' = JNum (Fin 10)"
    "get_prop [(''a'', JNum (Fin 2))] ''a'' = JNum (Fin 2)"
    by code_simp+
  have t: "\<not> serverSide (config table_10_2)" "sortField table_10_2 \<noteq> Some ''a''"
    "list_all (has_num ''a'') (filteredData table_10_2)"
    "distinct (map (num_of ''a'') (filteredData table_10_2))"
    by (simp_all add: table_10_2_def dataTable_def client_config_def has_num_def num_of_def g)
  have 1: "compare_rows ''a'' ''asc'' [(''a'', JStr ''10.5'')] [(''a'', JStr ''9.5'')] = 1"
    using dec [THEN conjunct1] n(1) n(2) n(4) by simp
  have 2: "compare_rows ''a'' ''asc'' [(''a'', JStr ''x'')] [(''a'', JStr ''9.5'')] = 1"
    using raw [THEN conjunct2, THEN conjunct1] n(3) n(5) by simp
  have 3: "compare_rows ''a'' ''asc'' [(''a'', JNum (Fin 10))] [(''a'', JNum (Fin 2))] = 1"
    using num [THEN conjunct2, THEN conjunct2, THEN conjunct1] g by simp
  have 4: "sorted (map (num_of ''a'')
      (filteredData (sort_tbl insertion_sort net_down ''a'' table_10_2)))"
    using num [THEN conjunct2, THEN conjunct2, THEN conjunct2, THEN conjunct1] c t by blast
  have 5: "filteredData (sort_tbl insertion_sort net_down ''a'' table_10_2) =
      [[(''a'', JNum (Fin 2))], [(''a'', JNum (Fin 10))]] \<and>
    filteredData (sort_tbl insertion_sort net_down ''a'' table_decimals) =
      [[(''a'', JStr ''9.5'')], [(''a'', JStr ''10.5'')]]"
    using num [THEN conjunct2, THEN conjunct2, THEN conjunct2, THEN conjunct2, THEN conjunct1] c
    by blast
  from c n(1) n(2) n(3) g t 1 2 3 4 5 show ?thesis by blast
qed

section \<open>Properties of the estimator pages\<close>

subsection \<open>Validation and the submit button\<close>

lemma all_select_id:
  "(\<forall>i. P i) \<longleftrightarrow>
   P categorySelect \<and> P brandSelect \<and> P modelSelect \<and> P variantSelect \<and> P yearSelect"
  by (metis select_id.exhaust)

lemma group_checked_iff:
  "group_checked d g \<longleftrightarrow> (\<exists>inp \<in> set (inputs d). inp_name inp = g \<and> inp_checked inp)"
  by (simp add: group_checked_def list_ex_iff)

lemma set_unique: "set (unique xs) = set xs"
  by (simp add: unique_def)

lemma update_submitBtn_disabled:
  "btn_disabled (submitBtn (update_submitBtn v d)) = (\<not> v)"
  by (simp add: update_submitBtn_def Let_def)

lemma update_submitBtn_keeps:
  "selects (update_submitBtn v d) = selects d"
  "inputs (update_submitBtn v d) = inputs d"
  "alerts (update_submitBtn v d) = alerts d"
  "console (update_submitBtn v d) = console d"
  "requests (update_submitBtn v d) = requests d"
  "submits (update_submitBtn v d) = submits d"
  by (simp_all add: update_submitBtn_def Let_def)

lemma validateForm_keeps:
  "selects (validateForm d) = selects d"
  "inputs (validateForm d) = inputs d"
  "alerts (validateForm d) = alerts d"
  "console (validateForm d) = console d"
  "requests (validateForm d) = requests d"
  "submits (validateForm d) = submits d"
  by (simp_all add: validateForm_def Let_def update_submitBtn_keeps)

text \<open>
  C1. After \<open>validateForm\<close> the submit button is enabled exactly when every selector of
  the cascade has a non-empty value and every required radio group has a checked input,
  and it is disabled in every other state. In the first script the cascade is category,
  brand, model, variant, year and the required groups are the eleven listed ones; in the
  second script the cascade starts at the brand and the required groups are the names of
  the radio inputs marked \<open>required\<close>. \<open>validateForm\<close> changes nothing but the button.
\<close>

theorem validateForm_enables_iff_complete:
  "(\<not> btn_disabled (submitBtn (validateForm d)) \<longleftrightarrow>
      (\<forall>i. value_of d i \<noteq> []) \<and>
      (\<forall>g \<in> set requiredRadioGroups.
          \<exists>inp \<in> set (inputs d). inp_name inp = g \<and> inp_checked inp)) \<and>
   (\<not> btn_disabled (submitBtn (validateForm_part001 d)) \<longleftrightarrow>
      (\<forall>i. i \<noteq> categorySelect \<longrightarrow> value_of d i \<noteq> []) \<and>
      (\<forall>r \<in> set (inputs d). inp_type r = ''radio'' \<and> inp_required r \<longrightarrow>
          (\<exists>inp \<in> set (inputs d). inp_name inp = inp_name r \<and> inp_checked inp))) \<and>
   selects (validateForm d) = selects d \<and> inputs (validateForm d) = inputs d \<and>
   selects (validateForm_part001 d) = selects d \<and> inputs (validateForm_part001 d) = inputs d"
proof (intro conjI)
  show "\<not> btn_disabled (submitBtn (validateForm d)) \<longleftrightarrow>
      (\<forall>i. value_of d i \<noteq> []) \<and>
      (\<forall>g \<in> set requiredRadioGroups.
          \<exists>inp \<in> set (inputs d). inp_name inp = g \<and> inp_checked inp)"
    by (simp add: validateForm_def Let_def update_submitBtn_disabled all_select_id
        list_all_iff group_checked_iff)
  have groups: "list_all (group_checked d) (uniqueGroupNames d) \<longleftrightarrow>
      (\<forall>r \<in> set (inputs d). inp_type r = ''radio'' \<and> inp_required r \<longrightarrow>
          (\<exists>inp \<in> set (inputs d). inp_name inp = inp_name r \<and> inp_checked inp))"
    by (auto simp add: uniqueGroupNames_def set_unique list_all_iff group_checked_iff)
  show "\<not> btn_disabled (submitBtn (validateForm_part001 d)) \<longleftrightarrow>
      (\<forall>i. i \<noteq> categorySelect \<longrightarrow> value_of d i \<noteq> []) \<and>
      (\<forall>r \<in> set (inputs d). inp_type r = ''radio'' \<and> inp_required r \<longrightarrow>
          (\<exists>inp \<in> set (inputs d). inp_name inp = inp_name r \<and> inp_checked inp))"
    unfolding validateForm_part001_def Let_def update_submitBtn_disabled all_select_id groups
    by auto
qed (simp_all add: validateForm_keeps validateForm_part001_def Let_def update_submitBtn_keeps)

theorem validateForm_enables_iff_complete_witness:
  "(\<forall>i. value_of page_complete i \<noteq> []) \<and>
   \<not> btn_disabled (submitBtn (validateForm page_complete)) \<and>
   \<not> btn_disabled (submitBtn (validateForm_part001 page_complete)) \<and>
   value_of page_no_year yearSelect = [] \<and>
   btn_disabled (submitBtn (validateForm page_no_year)) \<and>
   btn_disabled (submitBtn (validateForm_part001 page_no_year)) \<and>
   \<not> group_checked page_no_tires ''tires_brakes'' \<and>
   btn_disabled (submitBtn (validateForm page_no_tires)) \<and>
   btn_disabled (submitBtn (validateForm_part001 page_no_tires))"
proof -
  note full = validateForm_enables_iff_complete [of page_complete]
  note year = validateForm_enables_iff_complete [of page_no_year]
  note tires = validateForm_enables_iff_complete [of page_no_tires]
  have v: "value_of page_complete categorySelect \<noteq> []"
    "value_of page_complete brandSelect \<noteq> []" "value_of page_complete modelSelect \<noteq> []"
    "value_of page_complete variantSelect \<noteq> []" "value_of page_complete yearSelect \<noteq> []"
    "value_of page_no_year yearSelect = []"
    by code_simp+
  then have a: "\<forall>i. value_of page_complete i \<noteq> []"
    by (simp add: all_select_id)
  have g: "list_all (group_checked page_complete) requiredRadioGroups"
    "\<not> group_checked page_no_tires ''tires_brakes''"
    "''tires_brakes'' \<in> set requiredRadioGroups"
    "radio ''tires_brakes'' False \<in> set (inputs page_no_tires)"
    by code_simp+
  have i: "inputs page_complete = map (\<lambda>g. radio g True) requiredRadioGroups"
    by (simp add: page_complete_def)
  have 1: "\<not> btn_disabled (submitBtn (validateForm page_complete))"
    using full [THEN conjunct1] a g(1) by (simp add: list_all_iff group_checked_iff)
  have 2: "\<not> btn_disabled (submitBtn (validateForm_part001 page_complete))"
    using full [THEN conjunct2, THEN conjunct1] a
    by (auto simp add: i radio_def)
  have 3: "btn_disabled (submitBtn (validateForm page_no_year))"
    "btn_disabled (submitBtn (validateForm_part001 page_no_year))"
    using year v(6) by auto
  have 4: "btn_disabled (submitBtn (validateForm page_no_tires))"
    using tires [THEN conjunct1] g(2) g(3) by (auto simp add: group_checked_iff)
  have 5: "btn_disabled (submitBtn (validateForm_part001 page_no_tires))"
    using tires [THEN conjunct2, THEN conjunct1] g(2) g(4)
    by (auto simp add: group_checked_iff radio_def)
  from a v 1 2 3 4 5 g show ?thesis by blast
qed

subsection \<open>Validation before submitting\<close>

lemma check_groups_first:
  "check_groups message gs d =
     (case filter (\<lambda>g. \<not> group_checked d g) gs of
        [] \<Rightarrow> (True, d)
      | g # rest \<Rightarrow> (False, showError (message g) d))"
  by (induction gs) simp_all

lemma selectors_filter_empty:
  "filter (\<lambda>i. value_of d i = [])
       [categorySelect, brandSelect, modelSelect, variantSelect, yearSelect] = [] \<longleftrightarrow>
   \<not> (value_of d categorySelect = [] \<or> value_of d brandSelect = [] \<or>
      value_of d modelSelect = [] \<or> value_of d variantSelect = [] \<or>
      value_of d yearSelect = [])"
  by (simp add: filter_empty_conv)

lemma selectors_filter_empty_part001:
  "filter (\<lambda>i. value_of d i = [])
       [brandSelect, modelSelect, variantSelect, yearSelect] = [] \<longleftrightarrow>
   \<not> (value_of d brandSelect = [] \<or>
      value_of d modelSelect = [] \<or> value_of d variantSelect = [] \<or>
      value_of d yearSelect = [])"
  by (simp add: filter_empty_conv)

lemma validateFormBeforeSubmit_cases:
  "validateFormBeforeSubmit d =
     (case spec_first_missing d of
        None \<Rightarrow> (True, d)
      | Some (Selector i) \<Rightarrow>
          (False, showError ''Silakan lengkapi semua spesifikasi kendaraan.'' d)
      | Some (RadioGroup g) \<Rightarrow>
          (False,
           showError (''Silakan pilih kondisi untuk '' @ getReadableFieldName g @ ''.'') d))"
proof (cases "filter (\<lambda>i. value_of d i = [])
       [categorySelect, brandSelect, modelSelect, variantSelect, yearSelect]")
  case Nil
  then have "\<not> (value_of d categorySelect = [] \<or> value_of d brandSelect = [] \<or>
      value_of d modelSelect = [] \<or> value_of d variantSelect = [] \<or>
      value_of d yearSelect = [])"
    using selectors_filter_empty by blast
  then show ?thesis
    unfolding validateFormBeforeSubmit_def spec_first_missing_def Let_def Nil
    by (simp add: check_groups_first split: list.split)
next
  case (Cons i rest)
  then have "value_of d categorySelect = [] \<or> value_of d brandSelect = [] \<or>
      value_of d modelSelect = [] \<or> value_of d variantSelect = [] \<or>
      value_of d yearSelect = []"
    using selectors_filter_empty [of d] by simp
  then show ?thesis
    unfolding validateFormBeforeSubmit_def spec_first_missing_def Let_def Cons
    by simp
qed

lemma validateFormBeforeSubmit_part001_cases:
  "validateFormBeforeSubmit_part001 d =
     (case spec_first_missing_part001 d of
        None \<Rightarrow> (True, d)
      | Some (Selector i) \<Rightarrow>
          (False, showError ''Please complete all vehicle specifications.'' d)
      | Some (RadioGroup g) \<Rightarrow>
          (False,
           showError
             (''Please select condition for '' @ getReadableFieldName_part001 d g @ ''.'') d))"
proof (cases "filter (\<lambda>i. value_of d i = [])
       [brandSelect, modelSelect, variantSelect, yearSelect]")
  case Nil
  then have "\<not> (value_of d brandSelect = [] \<or>
      value_of d modelSelect = [] \<or> value_of d variantSelect = [] \<or>
      value_of d yearSelect = [])"
    using selectors_filter_empty_part001 by blast
  then show ?thesis
    unfolding validateFormBeforeSubmit_part001_def spec_first_missing_part001_def Let_def Nil
    by (simp add: check_groups_first split: list.split)
next
  case (Cons i rest)
  then have "value_of d brandSelect = [] \<or>
      value_of d modelSelect = [] \<or> value_of d variantSelect = [] \<or>
      value_of d yearSelect = []"
    using selectors_filter_empty_part001 [of d] by simp
  then show ?thesis
    unfolding validateFormBeforeSubmit_part001_def spec_first_missing_part001_def Let_def Cons
    by simp
qed

lemma readable_names_distinct: "distinct (map getReadableFieldName requiredRadioGroups)"
  by code_simp

lemma showError_keeps:
  "alerts (showError m d) = alerts d @ [m]"
  "submits (showError m d) = submits d"
  "submitBtn (showError m d) = submitBtn d"
  "selects (showError m d) = selects d"
  "requests (showError m d) = requests d"
  by (simp_all add: showError_def)

text \<open>
  C9, as amended. Pre-submit validation fails exactly when something is missing. When
  it fails, the submit handler schedules no submission, leaves the button as it was and
  shows one message: the fixed text asking to complete the vehicle specifications when a
  selector has no value, whichever selector it is, and otherwise a text that names the
  first required radio group without a checked input. In the first script the names of
  the eleven groups are distinct, so the text determines the group.
\<close>

theorem validation_failure_blocks_and_reports:
  "(fst (validateFormBeforeSubmit d) \<longleftrightarrow> spec_first_missing d = None) \<and>
   (\<not> fst (validateFormBeforeSubmit d) \<longrightarrow>
      submits (onSubmit d) = submits d \<and> submitBtn (onSubmit d) = submitBtn d) \<and>
   (spec_first_missing d = Some (Selector i) \<longrightarrow>
      alerts (onSubmit d) = alerts d @ [''Silakan lengkapi semua spesifikasi kendaraan.'']) \<and>
   (spec_first_missing d = Some (RadioGroup g) \<longrightarrow>
      alerts (onSubmit d) =
        alerts d @ [''Silakan pilih kondisi untuk '' @ getReadableFieldName g @ ''.'']) \<and>
   inj_on getReadableFieldName (set requiredRadioGroups) \<and>
   (fst (validateFormBeforeSubmit_part001 d) \<longleftrightarrow> spec_first_missing_part001 d = None) \<and>
   (\<not> fst (validateFormBeforeSubmit_part001 d) \<longrightarrow>
      submits (onSubmit_part001 d) = submits d \<and>
      submitBtn (onSubmit_part001 d) = submitBtn d) \<and>
   (spec_first_missing_part001 d = Some (Selector i) \<longrightarrow>
      alerts (onSubmit_part001 d) =
        alerts d @ [''Please complete all vehicle specifications.'']) \<and>
   (spec_first_missing_part001 d = Some (RadioGroup g) \<longrightarrow>
      alerts (onSubmit_part001 d) =
        alerts d @
        [''Please select condition for '' @ getReadableFieldName_part001 d g @ ''.''])"
proof (intro conjI impI)
  show "fst (validateFormBeforeSubmit d) \<longleftrightarrow> spec_first_missing d = None"
    by (simp add: validateFormBeforeSubmit_cases split: option.split field.split)
  show "fst (validateFormBeforeSubmit_part001 d) \<longleftrightarrow> spec_first_missing_part001 d = None"
    by (simp add: validateFormBeforeSubmit_part001_cases split: option.split field.split)
  show "inj_on getReadableFieldName (set requiredRadioGroups)"
    using readable_names_distinct by (simp add: distinct_map)
next
  assume "\<not> fst (validateFormBeforeSubmit d)"
  then show "submits (onSubmit d) = submits d" "submitBtn (onSubmit d) = submitBtn d"
    by (auto simp add: onSubmit_def validateFormBeforeSubmit_cases showError_keeps
        split: option.splits field.splits)
next
  assume "\<not> fst (validateFormBeforeSubmit_part001 d)"
  then show "submits (onSubmit_part001 d) = submits d"
    "submitBtn (onSubmit_part001 d) = submitBtn d"
    by (auto simp add: onSubmit_part001_def validateFormBeforeSubmit_part001_cases
        showError_keeps split: option.splits field.splits)
next
  assume "spec_first_missing d = Some (Selector i)"
  then show "alerts (onSubmit d) =
      alerts d @ [''Silakan lengkapi semua spesifikasi kendaraan.'']"
    by (simp add: onSubmit_def validateFormBeforeSubmit_cases showError_keeps)
next
  assume "spec_first_missing d = Some (RadioGroup g)"
  then show "alerts (onSubmit d) =
      alerts d @ [''Silakan pilih kondisi untuk '' @ getReadableFieldName g @ ''.'']"
    by (simp add: onSubmit_def validateFormBeforeSubmit_cases showError_keeps)
next
  assume "spec_first_missing_part001 d = Some (Selector i)"
  then show "alerts (onSubmit_part001 d) =
      alerts d @ [''Please complete all vehicle specifications.'']"
    by (simp add: onSubmit_part001_def validateFormBeforeSubmit_part001_cases showError_keeps)
next
  assume "spec_first_missing_part001 d = Some (RadioGroup g)"
  then show "alerts (onSubmit_part001 d) =
      alerts d @
      [''Please select condition for '' @ getReadableFieldName_part001 d g @ ''.'']"
    by (simp add: onSubmit_part001_def validateFormBeforeSubmit_part001_cases showError_keeps)
qed

theorem validation_failure_blocks_and_reports_witness:
  "spec_first_missing page_no_year = Some (Selector yearSelect) \<and>
   \<not> fst (validateFormBeforeSubmit page_no_year) \<and>
   submits (onSubmit page_no_year) = 0 \<and>
   alerts (onSubmit page_no_year) = [''Silakan lengkapi semua spesifikasi kendaraan.''] \<and>
   spec_first_missing page_no_tires = Some (RadioGroup ''tires_brakes'') \<and>
   alerts (onSubmit page_no_tires) = [''Silakan pilih kondisi untuk Tires & Brakes.''] \<and>
   spec_first_missing_part001 page_no_year = Some (Selector yearSelect) \<and>
   alerts (onSubmit_part001 page_no_year) = [''Please complete all vehicle specifications.''] \<and>
   spec_first_missing_part001 page_no_tires = Some (RadioGroup ''tires_brakes'') \<and>
   alerts (onSubmit_part001 page_no_tires) = [''Please select condition for Tires Brakes.''] \<and>
   submits (onSubmit_part001 page_no_tires) = 0 \<and>
   spec_first_missing page_complete = None \<and> fst (validateFormBeforeSubmit page_complete)"
proof -
  note year = validation_failure_blocks_and_reports [of page_no_year yearSelect "''tires_brakes''"]
  note tires =
    validation_failure_blocks_and_reports [of page_no_tires yearSelect "''tires_brakes''"]
  note full = validation_failure_blocks_and_reports [of page_complete yearSelect "''tires_brakes''"]
  have m: "spec_first_missing page_no_year = Some (Selector yearSelect)"
    "spec_first_missing page_no_tires = Some (RadioGroup ''tires_brakes'')"
    "spec_first_missing_part001 page_no_year = Some (Selector yearSelect)"
    "spec_first_missing_part001 page_no_tires = Some (RadioGroup ''tires_brakes'')"
    "spec_first_missing page_complete = None"
    by code_simp+
  have n: "getReadableFieldName ''tires_brakes'' = ''Tires & Brakes''"
    "getReadableFieldName_part001 page_no_tires ''tires_brakes'' = ''Tires Brakes''"
    by code_simp+
  have z: "alerts page_no_year = []" "alerts page_no_tires = []"
    "submits page_no_year = 0" "submits page_no_tires = 0"
    by (simp_all add: page_no_year_def page_no_tires_def page_complete_def)
  have 1: "\<not> fst (validateFormBeforeSubmit page_no_year)"
    "\<not> fst (validateFormBeforeSubmit_part001 page_no_tires)"
    "fst (validateFormBeforeSubmit page_complete)"
    using year tires full m by simp_all
  have 2: "submits (onSubmit page_no_year) = 0" "submits (onSubmit_part001 page_no_tires) = 0"
    using year tires 1 z by simp_all
  have 3: "alerts (onSubmit page_no_year) = [''Silakan lengkapi semua spesifikasi kendaraan.'']"
    "alerts (onSubmit_part001 page_no_year) = [''Please complete all vehicle specifications.'']"
    using year m z by simp_all
  have 4: "alerts (onSubmit page_no_tires) = [''Silakan pilih kondisi untuk Tires & Brakes.'']"
    "alerts (onSubmit_part001 page_no_tires) = [''Please select condition for Tires Brakes.'']"
    using tires m z n by simp_all
  from m 1 2 3 4 show ?thesis by simp
qed

text \<open>
  The claim as stated fails: a form without a category and a form without a year get the
  same message, so the message does not tell which selector is the first one missing.
\<close>

theorem missing_selector_not_identified:
  "\<not> fst (validateFormBeforeSubmit page_no_category) \<and>
   \<not> fst (validateFormBeforeSubmit page_no_year) \<and>
   spec_first_missing page_no_category = Some (Selector categorySelect) \<and>
   spec_first_missing page_no_year = Some (Selector yearSelect) \<and>
   alerts (snd (validateFormBeforeSubmit page_no_category)) =
     [''Silakan lengkapi semua spesifikasi kendaraan.''] \<and>
   alerts (snd (validateFormBeforeSubmit page_no_year)) =
     [''Silakan lengkapi semua spesifikasi kendaraan.'']"
  by code_simp

subsection \<open>The cascade\<close>

lemma parsed_placeholder: "parsed_options (placeholder_opt text # xs) = placeholder_opt text # xs"
  by (simp add: parsed_options_def placeholder_opt_def)

lemma reset_one:
  "selects (set_disabled i True (set_innerHTML i [placeholder_opt text] d)) =
     (selects d)(i := \<lparr>sel_options = [placeholder_opt text], sel_disabled = True\<rparr>)"
  by (simp add: set_disabled_def set_innerHTML_def parsed_placeholder fun_eq_iff)

lemma reset_one_keeps:
  "alerts (set_disabled i b d) = alerts d" "alerts (set_innerHTML i xs d) = alerts d"
  "requests (set_disabled i b d) = requests d" "requests (set_innerHTML i xs d) = requests d"
  "console (set_disabled i b d) = console d" "console (set_innerHTML i xs d) = console d"
  "submitBtn (set_disabled i b d) = submitBtn d" "submitBtn (set_innerHTML i xs d) = submitBtn d"
  by (simp_all add: set_disabled_def set_innerHTML_def)

lemma resetSelects_selects:
  "selects (resetSelects ids d) j =
     (if j \<in> set ids
      then \<lparr>sel_options = [placeholder_opt (getPlaceholderText j)], sel_disabled = True\<rparr>
      else selects d j)"
proof (induction ids arbitrary: d)
  case Nil
  then show ?case by (simp add: resetSelects_def)
next
  case (Cons i ids)
  have step: "resetSelects (i # ids) d =
      resetSelects ids
        (set_disabled i True (set_innerHTML i [placeholder_opt (getPlaceholderText i)] d))"
    by (simp add: resetSelects_def)
  show ?case
    unfolding step Cons.IH by (simp add: reset_one)
qed

lemma resetSelects_keeps:
  "alerts (resetSelects ids d) = alerts d"
  "requests (resetSelects ids d) = requests d"
  "console (resetSelects ids d) = console d"
proof (induction ids arbitrary: d)
  case Nil
  {
    case 1 show ?case by (simp add: resetSelects_def)
  next
    case 2 show ?case by (simp add: resetSelects_def)
  next
    case 3 show ?case by (simp add: resetSelects_def)
  }
next
  case (Cons i ids)
  have step: "\<And>d. resetSelects (i # ids) d =
      resetSelects ids
        (set_disabled i True (set_innerHTML i [placeholder_opt (getPlaceholderText i)] d))"
    by (simp add: resetSelects_def)
  {
    case 1 show ?case unfolding step Cons.IH by (simp add: reset_one_keeps)
  next
    case 2 show ?case unfolding step Cons.IH by (simp add: reset_one_keeps)
  next
    case 3 show ?case unfolding step Cons.IH by (simp add: reset_one_keeps)
  }
qed

lemma showLoading_selects:
  "selects (showLoading i d) =
     (selects d)(i := \<lparr>sel_options = [placeholder_opt ''Loading...''], sel_disabled = True\<rparr>)"
  by (simp add: showLoading_def reset_one)

lemma showLoading_keeps:
  "alerts (showLoading i d) = alerts d"
  "requests (showLoading i d) = requests d"
  "console (showLoading i d) = console d"
  by (simp_all add: showLoading_def reset_one_keeps)

text \<open>What \<open>fill_select\<close> leaves behind, by the answer.\<close>

lemma fill_select_Items:
  "selects (fill_select target text below logged message (Items xs) d) j =
     (if j \<in> set below
      then \<lparr>sel_options = [placeholder_opt (getPlaceholderText j)], sel_disabled = True\<rparr>
      else if j = target
      then \<lparr>sel_options = placeholder_opt text # map item_opt xs, sel_disabled = False\<rparr>
      else selects d j)"
  by (simp add: fill_select_def validateForm_keeps resetSelects_selects set_disabled_def
      set_innerHTML_def parsed_placeholder)

lemma fill_select_failure_disabled:
  "is_failure r \<Longrightarrow>
   sel_disabled (selects (fill_select target text below logged message r d) j) =
     sel_disabled (selects d j)"
  by (cases r) (simp_all add: fill_select_def showError_def console_error_def set_innerHTML_def)

lemma fill_select_alerts:
  "alerts (fill_select target text below logged message r d) =
     (if is_failure r then alerts d @ [message] else alerts d)"
  by (cases r)
    (simp_all add: fill_select_def showError_def console_error_def reset_one_keeps
      validateForm_keeps resetSelects_keeps)

lemma fill_select_requests:
  "requests (fill_select target text below logged message r d) = requests d"
  by (cases r)
    (simp_all add: fill_select_def showError_def console_error_def reset_one_keeps
      validateForm_keeps resetSelects_keeps)

lemma issued_append: "requests d' = requests d @ rs \<Longrightarrow> issued d d' = rs"
  by (simp add: issued_def)

lemma is_reset_iff:
  "is_reset i d \<longleftrightarrow>
   selects d i = \<lparr>sel_options = [placeholder_opt (getPlaceholderText i)], sel_disabled = True\<rparr>"
  by (cases "selects d i") (auto simp add: is_reset_def)

text \<open>Each handler, by whether it fetches.\<close>

lemma categoryChange_idle:
  assumes "value_of d categorySelect = []"
  shows "categoryChange net d =
    validateForm (resetSelects [brandSelect, modelSelect, variantSelect, yearSelect]
      (set_disabled brandSelect True d))"
  using assms by (simp add: categoryChange_def)

lemma categoryChange_fetch:
  assumes "value_of d categorySelect \<noteq> []"
  shows "categoryChange net d =
    fill_select brandSelect ''Pilih Brand'' [modelSelect, variantSelect, yearSelect]
      ''Error loading brands:'' ''Gagal memuat brand. Silakan coba lagi.''
      (net (Brands, [(''category'', value_of d categorySelect)]))
      ((showLoading brandSelect d)
         \<lparr>requests := requests d @ [(Brands, [(''category'', value_of d categorySelect)])]\<rparr>)"
  using assms by (simp add: categoryChange_def Let_def fetch_json_def showLoading_keeps)

lemma brandChange_idle:
  assumes "value_of d brandSelect = []"
  shows "brandChange net d =
    validateForm (resetSelects [modelSelect, variantSelect, yearSelect] d)"
  using assms by (simp add: brandChange_def)

lemma brandChange_fetch:
  assumes "value_of d brandSelect \<noteq> []"
  shows "brandChange net d =
    fill_select modelSelect ''Pilih Model'' [variantSelect, yearSelect]
      ''Error loading models:'' ''Gagal memuat model. Silakan coba lagi.''
      (net (Models, [(''brand'', value_of d brandSelect)]))
      ((showLoading modelSelect d)
         \<lparr>requests := requests d @ [(Models, [(''brand'', value_of d brandSelect)])]\<rparr>)"
  using assms by (simp add: brandChange_def Let_def fetch_json_def showLoading_keeps)

lemma modelChange_idle:
  assumes "value_of d brandSelect = [] \<or> value_of d modelSelect = []"
  shows "modelChange net d = validateForm (resetSelects [variantSelect, yearSelect] d)"
  using assms by (auto simp add: modelChange_def)

lemma modelChange_fetch:
  assumes "value_of d brandSelect \<noteq> []" and "value_of d modelSelect \<noteq> []"
  shows "modelChange net d =
    fill_select variantSelect ''Pilih Variant'' [yearSelect]
      ''Error loading variants:'' ''Gagal memuat variant. Silakan coba lagi.''
      (net (Variants,
         [(''brand'', value_of d brandSelect), (''model'', value_of d modelSelect)]))
      ((showLoading variantSelect d)
         \<lparr>requests := requests d @
            [(Variants,
              [(''brand'', value_of d brandSelect), (''model'', value_of d modelSelect)])]\<rparr>)"
  using assms by (simp add: modelChange_def Let_def fetch_json_def showLoading_keeps)

lemma variantChange_idle:
  assumes "value_of d brandSelect = [] \<or> value_of d modelSelect = [] \<or>
    value_of d variantSelect = []"
  shows "variantChange net d = validateForm (resetSelects [yearSelect] d)"
  using assms by (auto simp add: variantChange_def)

lemma variantChange_fetch:
  assumes "value_of d brandSelect \<noteq> []" and "value_of d modelSelect \<noteq> []"
    and "value_of d variantSelect \<noteq> []"
  shows "variantChange net d =
    fill_select yearSelect ''Pilih Tahun'' []
      ''Error loading years:'' ''Gagal memuat tahun. Silakan coba lagi.''
      (net (Years,
         [(''brand'', value_of d brandSelect), (''model'', value_of d modelSelect),
          (''variant'', value_of d variantSelect)]))
      ((showLoading yearSelect d)
         \<lparr>requests := requests d @
            [(Years,
              [(''brand'', value_of d brandSelect), (''model'', value_of d modelSelect),
               (''variant'', value_of d variantSelect)])]\<rparr>)"
  using assms by (simp add: variantChange_def Let_def fetch_json_def showLoading_keeps)

text \<open>
  A handler either fetches nothing and resets every level below its own, or sends one
  request and hands the answer to \<open>fill_select\<close> for the next level, after
  \<open>showLoading\<close>.
\<close>

lemma onChange_shape:
  assumes "n \<noteq> yearSelect"
  shows
    "(requests (onChange n net d) = requests d \<and> alerts (onChange n net d) = alerts d \<and>
      (\<forall>m. level n < level m \<longrightarrow> is_reset m (onChange n net d))) \<or>
     (\<exists>req text below logged message.
        value_of d n \<noteq> [] \<and>
        text = getPlaceholderText (next_level n) \<and>
        set below = {m. level n + 1 < level m} \<and>
        starts_with message ''Gagal memuat '' \<and>
        onChange n net d =
          fill_select (next_level n) text below logged message (net req)
            ((showLoading (next_level n) d)\<lparr>requests := requests d @ [req]\<rparr>))"
proof (cases n)
  case categorySelect
  show ?thesis
  proof (cases "value_of d categorySelect = []")
    case True
    have "\<forall>m. level categorySelect < level m \<longrightarrow> is_reset m (categoryChange net d)"
    proof (intro allI impI)
      fix m assume "level categorySelect < level m"
      then show "is_reset m (categoryChange net d)"
        by (cases m)
          (simp_all add: categoryChange_idle [OF True] is_reset_iff validateForm_keeps
            resetSelects_selects)
    qed
    then show ?thesis
      using True categorySelect
      by (simp add: categoryChange_idle validateForm_keeps resetSelects_keeps reset_one_keeps)
  next
    case False
    have "set [modelSelect, variantSelect, yearSelect] = {m. level categorySelect + 1 < level m}"
    proof (intro set_eqI)
      fix m show "m \<in> set [modelSelect, variantSelect, yearSelect] \<longleftrightarrow>
          m \<in> {m. level categorySelect + 1 < level m}"
        by (cases m) simp_all
    qed
    then show ?thesis
      using False categorySelect categoryChange_fetch [OF False, of net]
      by (intro disjI2 exI conjI) (simp_all add: getPlaceholderText_def)
  qed
next
  case brandSelect
  show ?thesis
  proof (cases "value_of d brandSelect = []")
    case True
    have "\<forall>m. level brandSelect < level m \<longrightarrow> is_reset m (brandChange net d)"
    proof (intro allI impI)
      fix m assume "level brandSelect < level m"
      then show "is_reset m (brandChange net d)"
        by (cases m)
          (simp_all add: brandChange_idle [OF True] is_reset_iff validateForm_keeps
            resetSelects_selects)
    qed
    then show ?thesis
      using True brandSelect
      by (simp add: brandChange_idle validateForm_keeps resetSelects_keeps)
  next
    case False
    have "set [variantSelect, yearSelect] = {m. level brandSelect + 1 < level m}"
    proof (intro set_eqI)
      fix m show "m \<in> set [variantSelect, yearSelect] \<longleftrightarrow>
          m \<in> {m. level brandSelect + 1 < level m}"
        by (cases m) simp_all
    qed
    then show ?thesis
      using False brandSelect brandChange_fetch [OF False, of net]
      by (intro disjI2 exI conjI) (simp_all add: getPlaceholderText_def)
  qed
next
  case modelSelect
  show ?thesis
  proof (cases "value_of d brandSelect = [] \<or> value_of d modelSelect = []")
    case True
    have "\<forall>m. level modelSelect < level m \<longrightarrow> is_reset m (modelChange net d)"
    proof (intro allI impI)
      fix m assume "level modelSelect < level m"
      then show "is_reset m (modelChange net d)"
        by (cases m)
          (simp_all add: modelChange_idle [OF True] is_reset_iff validateForm_keeps
            resetSelects_selects)
    qed
    then show ?thesis
      using True modelSelect
      by (simp add: modelChange_idle validateForm_keeps resetSelects_keeps)
  next
    case False
    then have v: "value_of d brandSelect \<noteq> []" "value_of d modelSelect \<noteq> []" by simp_all
    have "set [yearSelect] = {m. level modelSelect + 1 < level m}"
    proof (intro set_eqI)
      fix m show "m \<in> set [yearSelect] \<longleftrightarrow> m \<in> {m. level modelSelect + 1 < level m}"
        by (cases m) simp_all
    qed
    then show ?thesis
      using v modelSelect modelChange_fetch [OF v, of net]
      by (intro disjI2 exI conjI) (simp_all add: getPlaceholderText_def)
  qed
next
  case variantSelect
  show ?thesis
  proof (cases "value_of d brandSelect = [] \<or> value_of d modelSelect = [] \<or>
      value_of d variantSelect = []")
    case True
    have "\<forall>m. level variantSelect < level m \<longrightarrow> is_reset m (variantChange net d)"
    proof (intro allI impI)
      fix m assume "level variantSelect < level m"
      then show "is_reset m (variantChange net d)"
        by (cases m)
          (simp_all add: variantChange_idle [OF True] is_reset_iff validateForm_keeps
            resetSelects_selects)
    qed
    then show ?thesis
      using True variantSelect
      by (simp add: variantChange_idle validateForm_keeps resetSelects_keeps)
  next
    case False
    then have v: "value_of d brandSelect \<noteq> []" "value_of d modelSelect \<noteq> []"
      "value_of d variantSelect \<noteq> []" by simp_all
    have "set [] = {m. level variantSelect + 1 < level m}"
    proof (intro set_eqI)
      fix m show "m \<in> set [] \<longleftrightarrow> m \<in> {m. level variantSelect + 1 < level m}"
        by (cases m) simp_all
    qed
    then show ?thesis
      using v variantSelect variantChange_fetch [OF v, of net]
      by (intro disjI2 exI conjI) (simp_all add: getPlaceholderText_def)
  qed
next
  case yearSelect
  with assms show ?thesis by simp
qed

text \<open>
  C3, as amended. When the changed selector has no value, every level below it is reset:
  disabled, holding only its placeholder, whatever it held before. When the requests
  that the handler sent (at most one) were answered with items, every level more than
  one step below is reset, and the level just below is enabled and holds its
  placeholder followed by one option for each item.
\<close>

theorem change_resets_lower_levels:
  "(value_of d n = [] \<longrightarrow> (\<forall>m. level n < level m \<longrightarrow> is_reset m (onChange n net d))) \<and>
   ((\<forall>req \<in> set (issued d (onChange n net d)). \<not> is_failure (net req)) \<longrightarrow>
      (\<forall>m. level n + 1 < level m \<longrightarrow> is_reset m (onChange n net d))) \<and>
   (issued d (onChange n net d) = [req] \<and> net req = Items xs \<longrightarrow>
      selects (onChange n net d) (next_level n) =
        \<lparr>sel_options = placeholder_opt (getPlaceholderText (next_level n)) # map item_opt xs,
         sel_disabled = False\<rparr>)"
proof (cases "n = yearSelect")
  case True
  have "issued d (validateForm d) = []"
    by (simp add: issued_def validateForm_keeps)
  moreover have "\<forall>m. \<not> level yearSelect < level m"
  proof
    fix m show "\<not> level yearSelect < level m" by (cases m) simp_all
  qed
  moreover have "\<forall>m. \<not> level yearSelect + 1 < level m"
  proof
    fix m show "\<not> level yearSelect + 1 < level m" by (cases m) simp_all
  qed
  ultimately show ?thesis using True by simp
next
  case False
  from onChange_shape [OF False, of net d] show ?thesis
  proof (elim disjE exE conjE)
    assume r: "requests (onChange n net d) = requests d"
      and a: "\<forall>m. level n < level m \<longrightarrow> is_reset m (onChange n net d)"
    have "issued d (onChange n net d) = []"
      by (simp add: issued_def r)
    with a show ?thesis by simp
  next
    fix req0 ph below logged message
    assume v: "value_of d n \<noteq> []"
      and t: "ph = getPlaceholderText (next_level n)"
      and b: "set below = {m. level n + 1 < level m}"
      and eq: "onChange n net d =
          fill_select (next_level n) ph below logged message (net req0)
            ((showLoading (next_level n) d)\<lparr>requests := requests d @ [req0]\<rparr>)"
    have i: "issued d (onChange n net d) = [req0]"
      by (rule issued_append) (simp add: eq fill_select_requests)
    have nb: "next_level n \<notin> set below"
      using b False by (cases n) simp_all
    have 2: "(\<forall>req \<in> set (issued d (onChange n net d)). \<not> is_failure (net req)) \<longrightarrow>
        (\<forall>m. level n + 1 < level m \<longrightarrow> is_reset m (onChange n net d))"
    proof (intro impI allI)
      fix m
      assume "\<forall>req \<in> set (issued d (onChange n net d)). \<not> is_failure (net req)"
        and m: "level n + 1 < level m"
      then have "\<not> is_failure (net req0)" by (simp add: i)
      then obtain ys where ys: "net req0 = Items ys" by (cases "net req0") simp_all
      from m b have "m \<in> set below" by simp
      then show "is_reset m (onChange n net d)"
        by (simp add: is_reset_iff eq ys fill_select_Items)
    qed
    have 3: "issued d (onChange n net d) = [req] \<and> net req = Items xs \<longrightarrow>
        selects (onChange n net d) (next_level n) =
          \<lparr>sel_options = placeholder_opt (getPlaceholderText (next_level n)) # map item_opt xs,
           sel_disabled = False\<rparr>"
    proof
      assume "issued d (onChange n net d) = [req] \<and> net req = Items xs"
      then have "net req0 = Items xs" by (simp add: i)
      then show "selects (onChange n net d) (next_level n) =
          \<lparr>sel_options = placeholder_opt (getPlaceholderText (next_level n)) # map item_opt xs,
           sel_disabled = False\<rparr>"
        using nb by (simp add: eq fill_select_Items t)
    qed
    from v 2 3 show ?thesis by blast
  qed
qed

text \<open>
  The claim as stated fails: after a category is chosen and its brands have loaded, the
  brand selector, one level below, is enabled and populated, not reset.
\<close>

theorem loaded_level_is_not_reset:
  "level categorySelect < level brandSelect \<and>
   value_of page_complete categorySelect = ''Sedan'' \<and>
   \<not> is_reset brandSelect (onChange categorySelect api_items page_complete) \<and>
   \<not> sel_disabled (selects (onChange categorySelect api_items page_complete) brandSelect)"
  by code_simp

theorem change_resets_lower_levels_witness:
  "value_of page_no_category categorySelect = [] \<and>
   is_reset brandSelect (onChange categorySelect api_items page_no_category) \<and>
   is_reset yearSelect (onChange categorySelect api_items page_no_category) \<and>
   issued page_complete (onChange categorySelect api_items page_complete) =
     [(Brands, [(''category'', ''Sedan'')])] \<and>
   \<not> is_failure (api_items (Brands, [(''category'', ''Sedan'')])) \<and>
   is_reset modelSelect (onChange categorySelect api_items page_complete) \<and>
   is_reset variantSelect (onChange categorySelect api_items page_complete) \<and>
   is_reset yearSelect (onChange categorySelect api_items page_complete) \<and>
   selects (onChange categorySelect api_items page_complete) brandSelect =
     \<lparr>sel_options = placeholder_opt ''Pilih Brand'' # map item_opt [''Toyota'', ''Honda''],
      sel_disabled = False\<rparr>"
proof -
  let ?req = "(Brands, [(''category'', ''Sedan'')])"
  note idle = change_resets_lower_levels
    [of page_no_category categorySelect api_items ?req "[''Toyota'', ''Honda'']"]
  note busy = change_resets_lower_levels
    [of page_complete categorySelect api_items ?req "[''Toyota'', ''Honda'']"]
  have h: "value_of page_no_category categorySelect = []"
    "issued page_complete (onChange categorySelect api_items page_complete) = [?req]"
    "api_items ?req = Items [''Toyota'', ''Honda'']"
    "\<not> is_failure (api_items ?req)"
    "getPlaceholderText (next_level categorySelect) = ''Pilih Brand''"
    by code_simp+
  have 1: "is_reset brandSelect (onChange categorySelect api_items page_no_category)"
    "is_reset yearSelect (onChange categorySelect api_items page_no_category)"
    using idle [THEN conjunct1] h(1) by simp_all
  have 2: "is_reset modelSelect (onChange categorySelect api_items page_complete)"
    "is_reset variantSelect (onChange categorySelect api_items page_complete)"
    "is_reset yearSelect (onChange categorySelect api_items page_complete)"
    using busy [THEN conjunct2, THEN conjunct1] h(2) h(4) by simp_all
  have 3: "selects (onChange categorySelect api_items page_complete) brandSelect =
     \<lparr>sel_options = placeholder_opt ''Pilih Brand'' # map item_opt [''Toyota'', ''Honda''],
      sel_disabled = False\<rparr>"
    using busy [THEN conjunct2, THEN conjunct2] h(2) h(3) h(5) by simp
  from h 1 2 3 show ?thesis by simp
qed

subsection \<open>A failed fetch\<close>

lemma onChange_assessment_failure:
  assumes "\<exists>req \<in> set (issued d (onChange_assessment n net d)). is_failure (net req)"
  shows "alerts (onChange_assessment n net d) = alerts d"
    and "sel_disabled (selects (onChange_assessment n net d) j) = sel_disabled (selects d j)"
    and "length (issued d (onChange_assessment n net d)) = 1"
    and "\<exists>logged. console (onChange_assessment n net d) = console d @ [logged]"
  using assms
  by (cases n;
      auto simp add: issued_def categoryChange_assessment_def brandChange_assessment_def
        modelChange_assessment_def variantChange_assessment_def fill_select_assessment_def
        resetSelects_assessment_def console_error_def set_innerHTML_def set_disabled_def
        fetch_json_def Let_def
      split: api_result.splits if_splits)+

lemma loadCategories_failure:
  assumes "is_failure (net (Categories, []))"
  shows "alerts (loadCategories net d) =
      alerts d @ [''Gagal memuat kategori. Silakan refresh halaman.'']"
    and "issued d (loadCategories net d) = [(Categories, [])]"
    and "sel_disabled (selects (loadCategories net d) categorySelect) =
      sel_disabled (selects d categorySelect)"
  using assms
  by (cases "net (Categories, [])";
      simp add: loadCategories_def fetch_json_def issued_def showError_def console_error_def
        set_innerHTML_def)+

text \<open>
  C8, as amended. In the estimator script, when the fetch of the options of a level
  fails (a rejected fetch, a body that is not JSON, or a value that is not an array), the
  handler leaves that level disabled, shows one error dialog, and has sent exactly one
  request: there is no retry. When \<open>loadCategories\<close> fails it shows a dialog, has sent one
  request and leaves the \<open>disabled\<close> flag of the category selector as it was. In the
  assessment script a failed fetch is written to the console only: no dialog is shown,
  every selector keeps its \<open>disabled\<close> flag, and there is no retry either.
\<close>

theorem failed_fetch_leaves_level_disabled:
  "((\<exists>req \<in> set (issued d (onChange n net d)). is_failure (net req)) \<longrightarrow>
      sel_disabled (selects (onChange n net d) (next_level n)) \<and>
      (\<exists>message. starts_with message ''Gagal memuat '' \<and>
         alerts (onChange n net d) = alerts d @ [message]) \<and>
      length (issued d (onChange n net d)) = 1) \<and>
   (is_failure (net (Categories, [])) \<longrightarrow>
      alerts (loadCategories net d) =
        alerts d @ [''Gagal memuat kategori. Silakan refresh halaman.''] \<and>
      issued d (loadCategories net d) = [(Categories, [])] \<and>
      sel_disabled (selects (loadCategories net d) categorySelect) =
        sel_disabled (selects d categorySelect)) \<and>
   ((\<exists>req \<in> set (issued d (onChange_assessment n net d)). is_failure (net req)) \<longrightarrow>
      alerts (onChange_assessment n net d) = alerts d \<and>
      (\<forall>j. sel_disabled (selects (onChange_assessment n net d) j) =
           sel_disabled (selects d j)) \<and>
      length (issued d (onChange_assessment n net d)) = 1 \<and>
      (\<exists>logged. console (onChange_assessment n net d) = console d @ [logged]))"
proof (intro conjI impI)
  assume f: "\<exists>req \<in> set (issued d (onChange n net d)). is_failure (net req)"
  have ny: "n \<noteq> yearSelect"
  proof
    assume "n = yearSelect"
    then have "issued d (onChange n net d) = []"
      by (simp add: issued_def validateForm_keeps)
    with f show False by simp
  qed
  from onChange_shape [OF ny, of net d]
  have "\<exists>req0 ph below logged message.
      starts_with message ''Gagal memuat '' \<and>
      onChange n net d =
        fill_select (next_level n) ph below logged message (net req0)
          ((showLoading (next_level n) d)\<lparr>requests := requests d @ [req0]\<rparr>)"
  proof (elim disjE)
    assume "requests (onChange n net d) = requests d \<and> alerts (onChange n net d) = alerts d \<and>
      (\<forall>m. level n < level m \<longrightarrow> is_reset m (onChange n net d))"
    then have "issued d (onChange n net d) = []" by (simp add: issued_def)
    with f show ?thesis by simp
  qed blast
  then obtain req0 ph below logged message
    where s: "starts_with message ''Gagal memuat ''"
      and eq: "onChange n net d =
        fill_select (next_level n) ph below logged message (net req0)
          ((showLoading (next_level n) d)\<lparr>requests := requests d @ [req0]\<rparr>)"
    by blast
  have i: "issued d (onChange n net d) = [req0]"
    by (rule issued_append) (simp add: eq fill_select_requests)
  with f have fail: "is_failure (net req0)" by simp
  show "sel_disabled (selects (onChange n net d) (next_level n))"
    by (simp add: eq fill_select_failure_disabled [OF fail] showLoading_selects)
  have "alerts (onChange n net d) = alerts d @ [message]"
    by (simp add: eq fill_select_alerts fail showLoading_keeps)
  with s show "\<exists>message. starts_with message ''Gagal memuat '' \<and>
      alerts (onChange n net d) = alerts d @ [message]"
    by blast
  show "length (issued d (onChange n net d)) = 1" by (simp add: i)
next
  assume f: "is_failure (net (Categories, []))"
  show "alerts (loadCategories net d) =
      alerts d @ [''Gagal memuat kategori. Silakan refresh halaman.'']"
    using f by (rule loadCategories_failure)
  show "issued d (loadCategories net d) = [(Categories, [])]"
    using f by (rule loadCategories_failure)
  show "sel_disabled (selects (loadCategories net d) categorySelect) =
      sel_disabled (selects d categorySelect)"
    using f by (rule loadCategories_failure)
next
  assume f: "\<exists>req \<in> set (issued d (onChange_assessment n net d)). is_failure (net req)"
  show "alerts (onChange_assessment n net d) = alerts d"
    by (rule onChange_assessment_failure [OF f])
  show "\<forall>j. sel_disabled (selects (onChange_assessment n net d) j) =
      sel_disabled (selects d j)"
    using onChange_assessment_failure(2) [OF f] by blast
  show "length (issued d (onChange_assessment n net d)) = 1"
    by (rule onChange_assessment_failure [OF f])
  show "\<exists>logged. console (onChange_assessment n net d) = console d @ [logged]"
    by (rule onChange_assessment_failure [OF f])
qed

theorem failed_fetch_leaves_level_disabled_witness:
  "issued page_complete (onChange categorySelect api_down page_complete) =
     [(Brands, [(''category'', ''Sedan'')])] \<and>
   is_failure (api_down (Brands, [(''category'', ''Sedan'')])) \<and>
   sel_disabled (selects (onChange categorySelect api_down page_complete) brandSelect) \<and>
   alerts (onChange categorySelect api_down page_complete) =
     [''Gagal memuat brand. Silakan coba lagi.''] \<and>
   is_failure (api_down (Categories, [])) \<and>
   alerts (loadCategories api_down page_complete) =
     [''Gagal memuat kategori. Silakan refresh halaman.''] \<and>
   issued page_assessment (onChange_assessment categorySelect api_down page_assessment) =
     [(Brands, [(''category'', ''Sedan'')])] \<and>
   alerts (onChange_assessment categorySelect api_down page_assessment) = [] \<and>
   console (onChange_assessment categorySelect api_down page_assessment) =
     [''Error loading brands:'']"
proof -
  let ?req = "(Brands, [(''category'', ''Sedan'')])"
  note est = failed_fetch_leaves_level_disabled [of page_complete categorySelect api_down]
  note ass = failed_fetch_leaves_level_disabled [of page_assessment categorySelect api_down]
  have h: "issued page_complete (onChange categorySelect api_down page_complete) = [?req]"
    "is_failure (api_down ?req)" "is_failure (api_down (Categories, []))"
    "issued page_assessment (onChange_assessment categorySelect api_down page_assessment) =
       [?req]"
    "alerts page_complete = []" "alerts page_assessment = []"
    "next_level categorySelect = brandSelect"
    by code_simp+
  have c: "alerts (onChange categorySelect api_down page_complete) =
       [''Gagal memuat brand. Silakan coba lagi.'']"
    "console (onChange_assessment categorySelect api_down page_assessment) =
       [''Error loading brands:'']"
    by code_simp+
  have 1: "sel_disabled (selects (onChange categorySelect api_down page_complete) brandSelect)"
    using est [THEN conjunct1] h(1) h(2) h(7) by simp
  have 2: "alerts (loadCategories api_down page_complete) =
     [''Gagal memuat kategori. Silakan refresh halaman.'']"
    using est [THEN conjunct2, THEN conjunct1] h(3) h(5) by simp
  have 3: "alerts (onChange_assessment categorySelect api_down page_assessment) = []"
    using ass [THEN conjunct2, THEN conjunct2] h(4) h(2) h(6) by simp
  from h c 1 2 3 show ?thesis by simp
qed

text \<open>
  The claim as stated fails on the assessment script: with the brand selector enabled, a
  failed fetch of the brands leaves it enabled, with its old options, and shows no
  dialog.
\<close>

theorem assessment_failure_is_silent:
  "issued page_assessment (onChange_assessment categorySelect api_down page_assessment) =
     [(Brands, [(''category'', ''Sedan'')])] \<and>
   is_failure (api_down (Brands, [(''category'', ''Sedan'')])) \<and>
   \<not> sel_disabled
       (selects (onChange_assessment categorySelect api_down page_assessment) brandSelect) \<and>
   value_of (onChange_assessment categorySelect api_down page_assessment) brandSelect =
     ''Toyota'' \<and>
   alerts (onChange_assessment categorySelect api_down page_assessment) = []"
  by code_simp

text \<open>
  Loading the categories on the assessment page is silent in the same way: a failure
  shows no dialog, and no selector is enabled or disabled, whatever the answer.
\<close>

lemma loadCategories_assessment_silent:
  "alerts (loadCategories_assessment net d) = alerts d"
  "sel_disabled (selects (loadCategories_assessment net d) i) = sel_disabled (selects d i)"
  by (simp_all add: loadCategories_assessment_def fetch_json_def set_innerHTML_def
      console_error_def split: api_result.split)

end
